theory Spec2Isabelle
  imports Main "HOL-Library.AList"
begin

section \<open>JavaScript values used by the launcher\<close>

text \<open>
  Strings are lists of 8-bit characters, read as the code points U+0000 to U+00FF; the
  output of the display utility and every literal of the program are in that range.
  A thrown \<^verbatim>\<open>Error\<close> is the left summand of a sum and carries its message.
\<close>

type_synonym 'a result = "string + 'a"

fun startsWith :: "string \<Rightarrow> string \<Rightarrow> bool" where
  "startsWith s [] = True"
| "startsWith [] (p # ps) = False"
| "startsWith (c # cs) (p # ps) = (c = p \<and> startsWith cs ps)"

text \<open>\<^verbatim>\<open>String.prototype.trim\<close>: white space and line terminators below U+0100.\<close>

definition isWhiteSpace :: "char \<Rightarrow> bool" where
  "isWhiteSpace c = (c \<in> set [CHR 0x09, CHR 0x0A, CHR 0x0B, CHR 0x0C, CHR 0x0D, CHR 0x20, CHR 0xA0])"

definition trim :: "string \<Rightarrow> string" where
  "trim s = rev (dropWhile isWhiteSpace (rev (dropWhile isWhiteSpace s)))"

text \<open>\<^verbatim>\<open>s.split(c)\<close> for a one-character separator: the empty string gives one empty piece.\<close>

fun split_on :: "char \<Rightarrow> string \<Rightarrow> string list" where
  "split_on c [] = [[]]"
| "split_on c (x # xs) =
     (if x = c then [] # split_on c xs
      else (case split_on c xs of [] \<Rightarrow> [[x]] | l # ls \<Rightarrow> (x # l) # ls))"

text \<open>\<^verbatim>\<open>xs.join(sep)\<close>.\<close>

fun join_with :: "string \<Rightarrow> string list \<Rightarrow> string" where
  "join_with sep [] = []"
| "join_with sep [a] = a"
| "join_with sep (a # b # r) = a @ sep @ join_with sep (b # r)"

definition isDigit :: "char \<Rightarrow> bool" where
  "isDigit c = (c \<in> set ''0123456789'')"

text \<open>Template literals print an integer in decimal.\<close>

definition digit_char :: "nat \<Rightarrow> char" where
  "digit_char d = ''0123456789'' ! d"

function show_nat :: "nat \<Rightarrow> string" where
  "show_nat n = (if n < 10 then [digit_char n] else show_nat (n div 10) @ [digit_char (n mod 10)])"
  by pat_completeness auto
termination
  by (relation "measure id") auto

declare show_nat.simps [simp del]

definition show_int :: "int \<Rightarrow> string" where
  "show_int i = (if i < 0 then CHR ''-'' # show_nat (nat (- i)) else show_nat (nat i))"

text \<open>\<^verbatim>\<open>parseInt(s, 10)\<close> on a string that matched \<^verbatim>\<open>-?\d+\<close>.\<close>

definition digit_val :: "char \<Rightarrow> nat" where
  "digit_val c = of_char c - 48"

definition digits_val :: "string \<Rightarrow> nat" where
  "digits_val ds = foldl (\<lambda>acc c. acc * 10 + digit_val c) 0 ds"

definition parseInt :: "string \<Rightarrow> int" where
  "parseInt s = (if s \<noteq> [] \<and> hd s = CHR ''-'' then - int (digits_val (tl s)) else int (digits_val s))"

text \<open>JavaScript truthiness of an optional string and of an optional boolean.\<close>

definition truthy_str :: "string option \<Rightarrow> bool" where
  "truthy_str v = (case v of None \<Rightarrow> False | Some s \<Rightarrow> s \<noteq> [])"

definition truthy_bool :: "bool option \<Rightarrow> bool" where
  "truthy_bool v = (case v of None \<Rightarrow> False | Some b \<Rightarrow> b)"

section \<open>Regular expressions of the display parser\<close>

text \<open>
  \<^verbatim>\<open>s.match(re)\<close> without the global flag returns the leftmost match. Both expressions
  of the parser are deterministic once the start is fixed: a greedy run of digits is
  followed by a character that is not a digit, so no shorter run can match.
\<close>

fun regex_search :: "(string \<Rightarrow> 'a option) \<Rightarrow> string \<Rightarrow> 'a option" where
  "regex_search m [] = m []"
| "regex_search m (c # cs) = (case m (c # cs) of Some r \<Rightarrow> Some r | None \<Rightarrow> regex_search m cs)"

definition expect :: "char \<Rightarrow> string \<Rightarrow> string option" where
  "expect ch s = (case s of [] \<Rightarrow> None | c # r \<Rightarrow> if c = ch then Some r else None)"

text \<open>\<^verbatim>\<open>\d+\<close> at the head of the string: the digits and the rest.\<close>

definition digits1 :: "string \<Rightarrow> (string \<times> string) option" where
  "digits1 s = (let ds = takeWhile isDigit s in
                if ds = [] then None else Some (ds, dropWhile isDigit s))"

text \<open>\<^verbatim>\<open>-?\d+\<close> at the head of the string.\<close>

definition signed_digits :: "string \<Rightarrow> (string \<times> string) option" where
  "signed_digits s =
     (case expect CHR ''-'' s of
        Some r \<Rightarrow> (case digits1 r of None \<Rightarrow> None | Some (ds, r') \<Rightarrow> Some (CHR ''-'' # ds, r'))
      | None \<Rightarrow> digits1 s)"

text \<open>\<^verbatim>\<open>/\((-?\d+),(-?\d+)\)/\<close> anchored at the head: the two groups.\<close>

definition origin_at :: "string \<Rightarrow> (string \<times> string) option" where
  "origin_at s =
     (case expect CHR ''('' s of None \<Rightarrow> None | Some r1 \<Rightarrow>
      case signed_digits r1 of None \<Rightarrow> None | Some (a, r2) \<Rightarrow>
      case expect CHR '','' r2 of None \<Rightarrow> None | Some r3 \<Rightarrow>
      case signed_digits r3 of None \<Rightarrow> None | Some (b, r4) \<Rightarrow>
      case expect CHR '')'' r4 of None \<Rightarrow> None | Some _ \<Rightarrow> Some (a, b))"

text \<open>\<^verbatim>\<open>/(\d+)x(\d+)/\<close> anchored at the head: the two groups.\<close>

definition resolution_at :: "string \<Rightarrow> (string \<times> string) option" where
  "resolution_at s =
     (case digits1 s of None \<Rightarrow> None | Some (a, r1) \<Rightarrow>
      case expect CHR ''x'' r1 of None \<Rightarrow> None | Some r2 \<Rightarrow>
      case digits1 r2 of None \<Rightarrow> None | Some (b, _) \<Rightarrow> Some (a, b))"

section \<open>Display placement (getVirtualDisplayPosition, ensureVirtualDisplay)\<close>

record point =
  px :: int
  py :: int

record dims =
  width :: int
  height :: int

record DisplayInfo =
  origin :: point
  resolution :: dims

record screen =
  scr_type :: string
  scr_origin :: string
  scr_resolution :: string

text \<open>The partially filled \<^verbatim>\<open>currentScreen\<close> object of the parsing loop.\<close>

record currentScreen =
  cur_type :: "string option"
  cur_origin :: "string option"
  cur_resolution :: "string option"

definition emptyScreen :: currentScreen where
  "emptyScreen = \<lparr>cur_type = None, cur_origin = None, cur_resolution = None\<rparr>"

text \<open>The push guarded by \<^verbatim>\<open>type && origin && resolution\<close>.\<close>

definition pushScreen :: "currentScreen \<Rightarrow> screen list \<Rightarrow> screen list" where
  "pushScreen cur screens =
     (if truthy_str (cur_type cur) \<and> truthy_str (cur_origin cur) \<and> truthy_str (cur_resolution cur)
      then screens @ [\<lparr>scr_type = the (cur_type cur), scr_origin = the (cur_origin cur),
                       scr_resolution = the (cur_resolution cur)\<rparr>]
      else screens)"

text \<open>One iteration of the loop over the lines of the utility's output.\<close>

definition parseLine :: "screen list \<times> currentScreen \<Rightarrow> string \<Rightarrow> screen list \<times> currentScreen" where
  "parseLine st line =
     (let screens = fst st; cur = snd st in
      if startsWith line ''Type:'' then
        (screens, cur\<lparr>cur_type := Some (trim (drop 5 line))\<rparr>)
      else if startsWith line ''Origin:'' then
        (screens, cur\<lparr>cur_origin := Some (hd (split_on CHR '' '' (trim (drop 7 line))))\<rparr>)
      else if startsWith line ''Resolution:'' then
        (screens, cur\<lparr>cur_resolution := Some (trim (drop 11 line))\<rparr>)
      else if startsWith line ''Persistent screen id:'' \<and> truthy_str (cur_type cur) then
        (pushScreen cur screens, emptyScreen)
      else (screens, cur))"

definition parseScreens :: "string \<Rightarrow> screen list" where
  "parseScreens stdout =
     (let st = foldl parseLine ([], emptyScreen) (split_on CHR 0x0A stdout)
      in pushScreen (snd st) (fst st))"

text \<open>The loop over the screens: the first one that is not built in and lies at x > 0.\<close>

fun findVirtual :: "screen list \<Rightarrow> DisplayInfo option" where
  "findVirtual [] = None"
| "findVirtual (sc # rest) =
     (if scr_type sc = ''MacBook built in screen'' then findVirtual rest
      else case (regex_search origin_at (scr_origin sc), regex_search resolution_at (scr_resolution sc)) of
        (Some (xs, ys), Some (ws, hs)) \<Rightarrow>
          (if parseInt xs > 0
           then Some \<lparr>origin = \<lparr>px = parseInt xs, py = parseInt ys\<rparr>,
                      resolution = \<lparr>width = parseInt ws, height = parseInt hs\<rparr>\<rparr>
           else findVirtual rest)
      | _ \<Rightarrow> findVirtual rest)"

section \<open>The environment and the state of the server process\<close>

text \<open>
  Everything the program observes from outside is an oracle of the environment, asked
  at the current \<open>tick\<close> of the state; each question advances the tick. The theorems
  hold for every environment.
\<close>

datatype fetch_outcome =
    FetchRejects string
  | FetchStatus int
  | FetchJsonThrows string
  | FetchJson "string option"

text \<open>
  \<open>FetchRejects m\<close>: \<^verbatim>\<open>fetch\<close> rejects with message \<open>m\<close>. \<open>FetchStatus st\<close>: a response
  whose \<^verbatim>\<open>ok\<close> is false. \<open>FetchJsonThrows m\<close>: an ok response whose body does not parse.
  \<open>FetchJson u\<close>: an ok response whose \<^verbatim>\<open>webSocketDebuggerUrl\<close> is \<open>u\<close>.
\<close>

text \<open>A page of a browser, as the automation library shows it.\<close>

record Page =
  targetId :: string
  marker :: "string option"
  closed :: bool
  onClose :: "string list"

text \<open>
  \<open>marker\<close> is the value of \<^verbatim>\<open>globalThis.__devBrowserPageName\<close> in the page; \<open>onClose\<close>
  lists the registry names that the page's \<^verbatim>\<open>close\<close> listeners delete.
\<close>

record env =
  platform :: string
  LOCALAPPDATA :: string
  WORKSPACE_DATA_DIR :: string
  joinPath :: "string \<Rightarrow> string \<Rightarrow> string"
  execAsync :: "string \<Rightarrow> nat \<Rightarrow> string result"
  mkdirSync :: "string \<Rightarrow> nat \<Rightarrow> string option"
  spawnStarts :: "nat \<Rightarrow> bool"
  fetchVersion :: "int \<Rightarrow> nat \<Rightarrow> fetch_outcome"
  connectOverCDP :: "string \<Rightarrow> nat \<Rightarrow> ((string \<times> string option) list list) result"
  newPage :: "nat \<Rightarrow> string result"
  setViewportSize :: "nat \<Rightarrow> string option"
  getTargetInfo :: "nat \<Rightarrow> string option"
  pageClose :: "nat \<Rightarrow> string option"
  browserClose :: "nat \<Rightarrow> string option"

text \<open>
  \<open>connectOverCDP\<close> answers with the browser's live contexts, each a list of pages given
  by target identifier and marker. \<open>newPage\<close> answers with the target identifier of the
  page it created. An answer \<open>Some m\<close> or \<open>Inl m\<close> is a rejection with message \<open>m\<close>.
\<close>

text \<open>
  A child process. Node's \<^verbatim>\<open>subprocess.kill(signal)\<close> sends the signal while the process
  has not exited and then sets \<^verbatim>\<open>subprocess.killed\<close>; the flag records that a signal was
  sent, not that the process has terminated.
\<close>

record ChildProcess =
  spawnfile :: string
  spawnargs :: "string list"
  killed :: bool
  exited :: bool
  signals :: "string list"

record Context =
  ctx_pages :: "nat list"

record Browser =
  contexts :: "nat list"
  isConnected :: bool

record ChromeInstance =
  process :: nat
  port :: int
  profileDirectory :: string
  wsEndpoint :: "string option"

record PageEntry =
  entry_page :: nat
  entry_targetId :: string
  entry_workspace :: "string option"

datatype event =
    Exec string
  | Sleep nat
  | Mkdir string
  | Spawn string "string list"
  | Fetch int
  | Signal nat string
  | SetTimeout nat
  | Connect string
  | NewPage nat
  | SetViewport nat
  | TargetInfo nat
  | PageClose nat
  | BrowserClose nat
  | SocketDestroy nat
  | ServerClose

text \<open>
  The state: the store of child processes, pages, contexts and browsers (an object
  reference is an index into its store), the pending timers of \<^verbatim>\<open>killChrome\<close>, the page
  closes that were started and not awaited (\<open>closing\<close>), the trace of effects, the
  module variable \<^verbatim>\<open>cachedVirtualDisplay\<close> (\<open>None\<close> is \<^verbatim>\<open>undefined\<close>), the fields of the
  \<^verbatim>\<open>WorkspaceManager\<close> and the variables of the \<^verbatim>\<open>serveWorkspaces\<close> closure. A JavaScript
  \<^verbatim>\<open>Map\<close> is an association list in insertion order.
\<close>

record state =
  tick :: nat
  trace :: "event list"
  procs :: "ChildProcess list"
  timers :: "(nat \<times> nat) list"
  pages :: "Page list"
  ctxs :: "Context list"
  browsers :: "Browser list"
  closing :: "nat list"
  cachedVirtualDisplay :: "DisplayInfo option option"
  workspaces :: "(string \<times> ChromeInstance) list"
  currentWorkspace :: "string option"
  pageRegistry :: "(string \<times> PageEntry) list"
  browserConnections :: "(string \<times> nat) list"
  connections :: "nat list"
  cleaningUp :: bool
  listening :: bool

subsection \<open>Node primitives\<close>

definition do_exec :: "env \<Rightarrow> string \<Rightarrow> state \<Rightarrow> string result \<times> state" where
  "do_exec e cmd s =
     (execAsync e cmd (tick s), s\<lparr>tick := Suc (tick s), trace := trace s @ [Exec cmd]\<rparr>)"

definition do_sleep :: "nat \<Rightarrow> state \<Rightarrow> state" where
  "do_sleep ms s = s\<lparr>trace := trace s @ [Sleep ms]\<rparr>"

definition do_mkdir :: "env \<Rightarrow> string \<Rightarrow> state \<Rightarrow> string option \<times> state" where
  "do_mkdir e dir s =
     (mkdirSync e dir (tick s), s\<lparr>tick := Suc (tick s), trace := trace s @ [Mkdir dir]\<rparr>)"

definition do_spawn :: "env \<Rightarrow> string \<Rightarrow> string list \<Rightarrow> state \<Rightarrow> nat \<times> state" where
  "do_spawn e path args s =
     (length (procs s),
      s\<lparr>tick := Suc (tick s),
        procs := procs s @ [\<lparr>spawnfile = path, spawnargs = args, killed = False,
                             exited = (\<not> spawnStarts e (tick s)), signals = []\<rparr>],
        trace := trace s @ [Spawn path args]\<rparr>)"

definition do_fetch :: "env \<Rightarrow> int \<Rightarrow> state \<Rightarrow> fetch_outcome \<times> state" where
  "do_fetch e prt s =
     (fetchVersion e prt (tick s), s\<lparr>tick := Suc (tick s), trace := trace s @ [Fetch prt]\<rparr>)"

text \<open>\<^verbatim>\<open>subprocess.kill(sig)\<close> on the process with handle \<open>h\<close>.\<close>

definition do_kill :: "nat \<Rightarrow> string \<Rightarrow> state \<Rightarrow> state" where
  "do_kill h sig s =
     (let p = procs s ! h in
      if exited p then s
      else s\<lparr>procs := (procs s)[h := p\<lparr>killed := True, signals := signals p @ [sig]\<rparr>],
             trace := trace s @ [Signal h sig]\<rparr>)"

text \<open>The operating system ends the process with handle \<open>h\<close>.\<close>

definition proc_exits :: "nat \<Rightarrow> state \<Rightarrow> state" where
  "proc_exits h s = s\<lparr>procs := (procs s)[h := (procs s ! h)\<lparr>exited := True\<rparr>]\<rparr>"

subsection \<open>getVirtualDisplayPosition and ensureVirtualDisplay\<close>

definition VIRTUAL_DISPLAY_NAME :: string where
  "VIRTUAL_DISPLAY_NAME = ''DevBrowser''"

definition DISPLAYPLACER_LIST :: string where
  "DISPLAYPLACER_LIST = ''displayplacer list 2>/dev/null''"

definition BETTERDISPLAY_CREATE :: string where
  "BETTERDISPLAY_CREATE =
     ''betterdisplaycli create -type=VirtualScreen -virtualScreenName='' @ [CHR 0x22]
     @ VIRTUAL_DISPLAY_NAME @ [CHR 0x22]
     @ '' -aspectWidth=1920 -aspectHeight=1080 -connected=on 2>/dev/null''"

definition getVirtualDisplayPosition :: "env \<Rightarrow> state \<Rightarrow> DisplayInfo option \<times> state" where
  "getVirtualDisplayPosition e s =
     (if platform e \<noteq> ''darwin'' then (None, s)
      else case do_exec e DISPLAYPLACER_LIST s of
             (Inl _, s') \<Rightarrow> (None, s')
           | (Inr stdout, s') \<Rightarrow> (findVirtual (parseScreens stdout), s'))"

definition ensureVirtualDisplay :: "env \<Rightarrow> state \<Rightarrow> DisplayInfo option \<times> state" where
  "ensureVirtualDisplay e s =
     (if platform e \<noteq> ''darwin'' then (None, s)
      else case getVirtualDisplayPosition e s of
             (Some d, s1) \<Rightarrow> (Some d, s1)
           | (None, s1) \<Rightarrow>
               (case do_exec e BETTERDISPLAY_CREATE s1 of
                  (Inl _, s2) \<Rightarrow> (None, s2)
                | (Inr _, s2) \<Rightarrow>
                    (case getVirtualDisplayPosition e (do_sleep 1000 s2) of
                       (Some d, s3) \<Rightarrow> (Some d, s3)
                     | (None, s3) \<Rightarrow> (None, s3))))"

subsection \<open>findChromeExecutable and buildChromeArgs\<close>

definition CHROME_PATHS :: "env \<Rightarrow> string \<Rightarrow> string list" where
  "CHROME_PATHS e pf =
     (if pf = ''darwin'' then
        [''/Applications/Google Chrome.app/Contents/MacOS/Google Chrome'',
         ''/Applications/Google Chrome Canary.app/Contents/MacOS/Google Chrome Canary'']
      else if pf = ''win32'' then
        [join_with [CHR 0x5C] [''C:'', ''Program Files'', ''Google'', ''Chrome'', ''Application'', ''chrome.exe''],
         join_with [CHR 0x5C] [''C:'', ''Program Files (x86)'', ''Google'', ''Chrome'', ''Application'', ''chrome.exe''],
         join_with [CHR 0x5C] [LOCALAPPDATA e, ''Google'', ''Chrome'', ''Application'', ''chrome.exe'']]
      else if pf = ''linux'' then
        [''/usr/bin/google-chrome'', ''/usr/bin/google-chrome-stable'',
         ''/usr/bin/chromium'', ''/usr/bin/chromium-browser'']
      else [])"

definition findChromeExecutable :: "env \<Rightarrow> string option" where
  "findChromeExecutable e =
     (case CHROME_PATHS e (platform e) of
        [] \<Rightarrow> None
      | p # _ \<Rightarrow> if p = [] then None else Some p)"

definition DEFAULT_WINDOW_SIZE :: dims where
  "DEFAULT_WINDOW_SIZE = \<lparr>width = 1920, height = 1080\<rparr>"

record ChromeLaunchOptions =
  workspaceName :: string
  opt_profileDirectory :: string
  opt_port :: int
  headless :: "bool option"
  windowSize :: "dims option"

record BuildChromeArgsOptions = ChromeLaunchOptions +
  windowPosition :: "point option"

definition buildChromeArgs :: "env \<Rightarrow> BuildChromeArgsOptions \<Rightarrow> state \<Rightarrow> string list result \<times> state" where
  "buildChromeArgs e options s =
     (let hl = (case headless options of None \<Rightarrow> False | Some b \<Rightarrow> b);
          ws = (case windowSize options of None \<Rightarrow> DEFAULT_WINDOW_SIZE | Some w \<Rightarrow> w);
          userDataDir = joinPath e (WORKSPACE_DATA_DIR e) (workspaceName options)
      in case do_mkdir e userDataDir s of
           (Some m, s') \<Rightarrow> (Inl m, s')
         | (None, s') \<Rightarrow>
             (Inr ([''--user-data-dir='' @ userDataDir,
                    ''--remote-debugging-port='' @ show_int (opt_port options),
                    ''--window-size='' @ show_int (width ws) @ '','' @ show_int (height ws),
                    ''--no-first-run'',
                    ''--no-default-browser-check'',
                    ''--disable-background-timer-throttling'',
                    ''--disable-backgrounding-occluded-windows'',
                    ''--disable-renderer-backgrounding'']
                   @ (case windowPosition options of
                        None \<Rightarrow> []
                      | Some wp \<Rightarrow> [''--window-position='' @ show_int (px wp) @ '','' @ show_int (py wp)])
                   @ (if hl then [''--headless=new''] else [])
                   @ [''about:blank'']), s'))"

subsection \<open>waitForCDP\<close>

definition fetch_error :: "fetch_outcome \<Rightarrow> string" where
  "fetch_error oc =
     (case oc of
        FetchRejects m \<Rightarrow> m
      | FetchStatus st \<Rightarrow> ''HTTP '' @ show_int st
      | FetchJsonThrows m \<Rightarrow> m
      | FetchJson _ \<Rightarrow> [])"

definition fetch_success :: "fetch_outcome \<Rightarrow> string option option" where
  "fetch_success oc = (case oc of FetchJson u \<Rightarrow> Some u | _ \<Rightarrow> None)"

function waitForCDP_loop ::
  "env \<Rightarrow> int \<Rightarrow> nat \<Rightarrow> nat \<Rightarrow> nat \<Rightarrow> string option \<Rightarrow> state \<Rightarrow> string option result \<times> state" where
  "waitForCDP_loop e prt maxRetries delayMs i lastError s =
     (if i < maxRetries then
        (let r = do_fetch e prt s in
         case fetch_success (fst r) of
           Some u \<Rightarrow> (Inr u, snd r)
         | None \<Rightarrow> waitForCDP_loop e prt maxRetries delayMs (Suc i)
                     (Some (fetch_error (fst r))) (do_sleep delayMs (snd r)))
      else (Inl (''Chrome CDP not available after '' @ show_nat maxRetries @ '' retries: ''
                 @ (case lastError of None \<Rightarrow> ''undefined'' | Some m \<Rightarrow> m)), s))"
  by pat_completeness auto
termination
  by (relation "measure (\<lambda>(e, prt, maxRetries, delayMs, i, lastError, s). maxRetries - i)") auto

declare waitForCDP_loop.simps [simp del]

definition waitForCDP :: "env \<Rightarrow> int \<Rightarrow> nat \<Rightarrow> nat \<Rightarrow> state \<Rightarrow> string option result \<times> state" where
  "waitForCDP e prt maxRetries delayMs s = waitForCDP_loop e prt maxRetries delayMs 0 None s"

subsection \<open>launchChrome and killChrome\<close>

text \<open>
  The statement \<^verbatim>\<open>if (cachedVirtualDisplay === undefined) cachedVirtualDisplay = await
  ensureVirtualDisplay()\<close>.
\<close>

definition resolveDisplay :: "env \<Rightarrow> state \<Rightarrow> state" where
  "resolveDisplay e s =
     (if cachedVirtualDisplay s = None
      then (let r = ensureVirtualDisplay e s in (snd r)\<lparr>cachedVirtualDisplay := Some (fst r)\<rparr>)
      else s)"

text \<open>
  \<^verbatim>\<open>windowPosition\<close>, \<^verbatim>\<open>useHeadless\<close> and the object handed to \<^verbatim>\<open>buildChromeArgs\<close>.
\<close>

definition windowPositionOf :: "state \<Rightarrow> point option" where
  "windowPositionOf s =
     (case cachedVirtualDisplay s of
        Some (Some d) \<Rightarrow> Some (origin d)
      | _ \<Rightarrow> None)"

definition useHeadless :: "ChromeLaunchOptions \<Rightarrow> state \<Rightarrow> bool" where
  "useHeadless options s = (windowPositionOf s = None \<and> \<not> truthy_bool (headless options))"

definition argsOptions :: "ChromeLaunchOptions \<Rightarrow> state \<Rightarrow> BuildChromeArgsOptions" where
  "argsOptions options s =
     \<lparr>workspaceName = workspaceName options,
      opt_profileDirectory = opt_profileDirectory options,
      opt_port = opt_port options,
      headless = (if useHeadless options s then Some True else headless options),
      windowSize = windowSize options,
      windowPosition = windowPositionOf s\<rparr>"

definition launchChrome :: "env \<Rightarrow> ChromeLaunchOptions \<Rightarrow> state \<Rightarrow> ChromeInstance result \<times> state" where
  "launchChrome e options s =
     (case findChromeExecutable e of
        None \<Rightarrow> (Inl (''Chrome executable not found for platform: '' @ platform e), s)
      | Some chromePath \<Rightarrow>
          (let s1 = resolveDisplay e s
           in case buildChromeArgs e (argsOptions options s1) s1 of
                (Inl m, s2) \<Rightarrow> (Inl m, s2)
              | (Inr args, s2) \<Rightarrow>
                  (let sp = do_spawn e chromePath args s2
                   in case waitForCDP e (opt_port options) 30 500 (snd sp) of
                        (Inl m, s4) \<Rightarrow> (Inl m, s4)
                      | (Inr u, s4) \<Rightarrow>
                          (Inr \<lparr>process = fst sp, port = opt_port options,
                                profileDirectory = opt_profileDirectory options,
                                wsEndpoint = u\<rparr>, s4))))"

text \<open>
  \<^verbatim>\<open>killChrome\<close> returns at once: the forced kill is a timer callback, kept in \<open>timers\<close>
  with its delay. \<open>fireTimer\<close> runs the oldest pending callback.
\<close>

definition killChrome :: "ChromeInstance \<Rightarrow> state \<Rightarrow> state" where
  "killChrome inst s =
     (if \<not> killed (procs s ! process inst) then
        (let s1 = do_kill (process inst) ''SIGTERM'' s
         in s1\<lparr>timers := timers s1 @ [(3000, process inst)],
               trace := trace s1 @ [SetTimeout 3000]\<rparr>)
      else s)"

definition fireTimer :: "state \<Rightarrow> state" where
  "fireTimer s =
     (case timers s of
        [] \<Rightarrow> s
      | t # rest \<Rightarrow>
          (let s1 = s\<lparr>timers := rest\<rparr>
           in if \<not> killed (procs s1 ! snd t) then do_kill (snd t) ''SIGKILL'' s1 else s1))"

section \<open>WorkspaceManager\<close>

record WorkspaceConfig =
  cfg_profileDirectory :: string
  cfg_port :: int

record WorkspacesConfig =
  cfg_workspaces :: "(string \<times> WorkspaceConfig) list"
  defaultWorkspace :: string

definition switchWorkspace ::
  "env \<Rightarrow> (string \<times> WorkspaceConfig) list \<Rightarrow> string \<Rightarrow> state \<Rightarrow> ChromeInstance result \<times> state" where
  "switchWorkspace e config name s =
     (case map_of config name of
        None \<Rightarrow> (Inl (''Unknown workspace: '' @ name @ ''. Available: ''
                      @ join_with '', '' (map fst config)), s)
      | Some c \<Rightarrow>
          (case map_of (workspaces s) name of
             Some inst \<Rightarrow> (Inr inst, s\<lparr>currentWorkspace := Some name\<rparr>)
           | None \<Rightarrow>
               (case launchChrome e
                       \<lparr>workspaceName = name,
                        opt_profileDirectory = cfg_profileDirectory c,
                        opt_port = cfg_port c,
                        headless = Some False,
                        windowSize = None\<rparr> s of
                  (Inl m, s') \<Rightarrow> (Inl m, s')
                | (Inr inst, s') \<Rightarrow>
                    (Inr inst, s'\<lparr>workspaces := AList.update name inst (workspaces s'),
                                  currentWorkspace := Some name\<rparr>))))"

definition getCurrentWorkspace :: "state \<Rightarrow> string option" where
  "getCurrentWorkspace s = currentWorkspace s"

definition getCurrentInstance :: "state \<Rightarrow> ChromeInstance option" where
  "getCurrentInstance s =
     (case currentWorkspace s of
        None \<Rightarrow> None
      | Some n \<Rightarrow> if n = [] then None else map_of (workspaces s) n)"

definition hasWorkspace :: "(string \<times> WorkspaceConfig) list \<Rightarrow> string \<Rightarrow> bool" where
  "hasWorkspace config name = (map_of config name \<noteq> None)"

definition stopWorkspace :: "string \<Rightarrow> state \<Rightarrow> state" where
  "stopWorkspace name s =
     (case map_of (workspaces s) name of
        None \<Rightarrow> s
      | Some inst \<Rightarrow>
          (let s1 = killChrome inst s;
               s2 = s1\<lparr>workspaces := AList.delete name (workspaces s1)\<rparr>
           in if currentWorkspace s2 = Some name then s2\<lparr>currentWorkspace := None\<rparr> else s2))"

definition stopAll :: "state \<Rightarrow> state" where
  "stopAll s =
     (let s1 = foldl (\<lambda>st ni. killChrome (snd ni) st) s (workspaces s)
      in s1\<lparr>workspaces := [], currentWorkspace := None\<rparr>)"

section \<open>The workspace server (serveWorkspaces)\<close>

subsection \<open>Automation-library primitives\<close>

fun alloc_contexts :: "nat \<Rightarrow> (string \<times> string option) list list \<Rightarrow> Context list" where
  "alloc_contexts n [] = []"
| "alloc_contexts n (ps # r) =
     \<lparr>ctx_pages = [n ..< n + length ps]\<rparr> # alloc_contexts (n + length ps) r"

definition mk_page :: "string \<times> string option \<Rightarrow> Page" where
  "mk_page tm = \<lparr>targetId = fst tm, marker = snd tm, closed = False, onClose = []\<rparr>"

text \<open>\<^verbatim>\<open>chromium.connectOverCDP(ws)\<close>: a new browser object over the live contexts and pages.\<close>

definition do_connect :: "env \<Rightarrow> string \<Rightarrow> state \<Rightarrow> nat result \<times> state" where
  "do_connect e ws s =
     (let s1 = s\<lparr>tick := Suc (tick s), trace := trace s @ [Connect ws]\<rparr> in
      case connectOverCDP e ws (tick s) of
        Inl m \<Rightarrow> (Inl m, s1)
      | Inr live \<Rightarrow>
          (Inr (length (browsers s)),
           s1\<lparr>pages := pages s @ map mk_page (concat live),
              ctxs := ctxs s @ alloc_contexts (length (pages s)) live,
              browsers := browsers s @
                [\<lparr>contexts = [length (ctxs s) ..< length (ctxs s) + length live],
                  isConnected = True\<rparr>]\<rparr>))"

text \<open>\<^verbatim>\<open>context.newPage()\<close> on the context with handle \<open>c\<close>; no script runs in the new page.\<close>

definition do_newPage :: "env \<Rightarrow> nat \<Rightarrow> state \<Rightarrow> nat result \<times> state" where
  "do_newPage e c s =
     (case newPage e (tick s) of
        Inl m \<Rightarrow> (Inl m, s\<lparr>tick := Suc (tick s)\<rparr>)
      | Inr tid \<Rightarrow>
          (Inr (length (pages s)),
           s\<lparr>tick := Suc (tick s),
             trace := trace s @ [NewPage (length (pages s))],
             pages := pages s @ [\<lparr>targetId = tid, marker = None, closed = False, onClose = []\<rparr>],
             ctxs := (ctxs s)[c := (ctxs s ! c)\<lparr>ctx_pages := ctx_pages (ctxs s ! c) @ [length (pages s)]\<rparr>]\<rparr>))"

definition do_setViewportSize :: "env \<Rightarrow> nat \<Rightarrow> state \<Rightarrow> string option \<times> state" where
  "do_setViewportSize e h s =
     (setViewportSize e (tick s), s\<lparr>tick := Suc (tick s), trace := trace s @ [SetViewport h]\<rparr>)"

text \<open>
  \<^verbatim>\<open>newCDPSession\<close>, \<^verbatim>\<open>Target.getTargetInfo\<close> and \<^verbatim>\<open>detach\<close>: the target identifier of the
  page, unless one of the three calls rejects.
\<close>

definition do_getTargetInfo :: "env \<Rightarrow> nat \<Rightarrow> state \<Rightarrow> string result \<times> state" where
  "do_getTargetInfo e h s =
     (case getTargetInfo e (tick s) of
        Some m \<Rightarrow> Inl m
      | None \<Rightarrow> Inr (targetId (pages s ! h)),
      s\<lparr>tick := Suc (tick s), trace := trace s @ [TargetInfo h]\<rparr>)"

text \<open>
  A page closes: it leaves its context and its \<^verbatim>\<open>close\<close> listeners run, each deleting the
  registry name it was attached for.
\<close>

definition close_page :: "nat \<Rightarrow> state \<Rightarrow> state" where
  "close_page h s =
     (if closed (pages s ! h) then s
      else s\<lparr>pages := (pages s)[h := (pages s ! h)\<lparr>closed := True\<rparr>],
             ctxs := map (\<lambda>c. c\<lparr>ctx_pages := removeAll h (ctx_pages c)\<rparr>) (ctxs s),
             pageRegistry := foldl (\<lambda>r n. AList.delete n r) (pageRegistry s) (onClose (pages s ! h))\<rparr>)"

text \<open>\<^verbatim>\<open>await page.close()\<close>.\<close>

definition do_page_close :: "env \<Rightarrow> nat \<Rightarrow> state \<Rightarrow> string option \<times> state" where
  "do_page_close e h s =
     (let s1 = s\<lparr>tick := Suc (tick s), trace := trace s @ [PageClose h]\<rparr> in
      case pageClose e (tick s) of
        Some m \<Rightarrow> (Some m, s1)
      | None \<Rightarrow> (None, close_page h s1))"

text \<open>\<^verbatim>\<open>page.close().catch(() => {})\<close>: started, not awaited; it completes in a later turn.\<close>

definition start_page_close :: "nat \<Rightarrow> state \<Rightarrow> state" where
  "start_page_close h s = s\<lparr>trace := trace s @ [PageClose h], closing := closing s @ [h]\<rparr>"

definition complete_close :: "env \<Rightarrow> state \<Rightarrow> state" where
  "complete_close e s =
     (case closing s of
        [] \<Rightarrow> s
      | h # rest \<Rightarrow>
          (let s1 = s\<lparr>tick := Suc (tick s), closing := rest\<rparr> in
           case pageClose e (tick s) of
             Some _ \<Rightarrow> s1
           | None \<Rightarrow> close_page h s1))"

text \<open>\<^verbatim>\<open>await browser.close()\<close> and \<^verbatim>\<open>browser.close().catch(() => {})\<close>.\<close>

definition do_browser_close :: "env \<Rightarrow> nat \<Rightarrow> state \<Rightarrow> string option \<times> state" where
  "do_browser_close e b s =
     (let s1 = s\<lparr>tick := Suc (tick s), trace := trace s @ [BrowserClose b]\<rparr> in
      case browserClose e (tick s) of
        Some m \<Rightarrow> (Some m, s1)
      | None \<Rightarrow> (None, s1\<lparr>browsers := (browsers s1)[b := (browsers s1 ! b)\<lparr>isConnected := False\<rparr>]\<rparr>))"

definition start_browser_close :: "nat \<Rightarrow> state \<Rightarrow> state" where
  "start_browser_close b s =
     s\<lparr>trace := trace s @ [BrowserClose b],
       browsers := (browsers s)[b := (browsers s ! b)\<lparr>isConnected := False\<rparr>]\<rparr>"

subsection \<open>Responses\<close>

datatype body =
    ErrorBody string
  | UnknownWorkspaceBody string "string list"
  | SwitchBody string "string option"
  | StopBody string
  | PagesBody "string list"
  | PageBody string string string
  | SuccessBody

text \<open>
  \<open>Response st b\<close> is \<^verbatim>\<open>res.status(st).json(b)\<close>. \<open>Unhandled m\<close>: the handler's promise
  rejects with message \<open>m\<close> outside any \<^verbatim>\<open>try\<close>, and no response is written.
\<close>

datatype response = Response nat body | Unhandled string

definition init_state :: state where
  "init_state =
     \<lparr>tick = 0, trace = [], procs = [], timers = [], pages = [], ctxs = [], browsers = [],
      closing = [], cachedVirtualDisplay = None, workspaces = [], currentWorkspace = None,
      pageRegistry = [], browserConnections = [], connections = [], cleaningUp = False,
      listening = True\<rparr>"

subsection \<open>POST /workspace/switch\<close>

definition post_workspace_switch ::
  "env \<Rightarrow> WorkspacesConfig \<Rightarrow> string option \<Rightarrow> state \<Rightarrow> response \<times> state" where
  "post_workspace_switch e cfg workspace s =
     (if \<not> truthy_str workspace then
        (Response 400 (ErrorBody ''workspace is required and must be a string''), s)
      else let w = the workspace in
        if \<not> hasWorkspace (cfg_workspaces cfg) w then
          (Response 404 (UnknownWorkspaceBody (''Unknown workspace: '' @ w)
                           (map fst (cfg_workspaces cfg))), s)
        else case switchWorkspace e (cfg_workspaces cfg) w s of
          (Inl m, s1) \<Rightarrow>
            (Response 500 (ErrorBody (''Failed to switch workspace: '' @ m)), s1)
        | (Inr inst, s1) \<Rightarrow>
            if map_of (browserConnections s1) w = None \<and> truthy_str (wsEndpoint inst) then
              (case do_connect e (the (wsEndpoint inst)) s1 of
                 (Inl m, s2) \<Rightarrow>
                   (Response 500 (ErrorBody (''Failed to switch workspace: '' @ m)), s2)
               | (Inr b, s2) \<Rightarrow>
                   (Response 200 (SwitchBody w (wsEndpoint inst)),
                    s2\<lparr>browserConnections := AList.update w b (browserConnections s2)\<rparr>))
            else (Response 200 (SwitchBody w (wsEndpoint inst)), s1))"

subsection \<open>POST /workspace/stop\<close>

text \<open>
  The loop over the registry. Its body closes the page of an entry of the workspace,
  without awaiting the close, and deletes the entry; deleting the entry under the
  iterator does not disturb the iteration of a \<^verbatim>\<open>Map\<close>.
\<close>

definition stopPage :: "string \<Rightarrow> state \<Rightarrow> string \<times> PageEntry \<Rightarrow> state" where
  "stopPage w st ne =
     (if entry_workspace (snd ne) = Some w
      then (start_page_close (entry_page (snd ne)) st)
             \<lparr>pageRegistry := AList.delete (fst ne) (pageRegistry st)\<rparr>
      else st)"

definition stopPages :: "string \<Rightarrow> state \<Rightarrow> state" where
  "stopPages w s = foldl (stopPage w) s (pageRegistry s)"

definition post_workspace_stop :: "string option \<Rightarrow> state \<Rightarrow> response \<times> state" where
  "post_workspace_stop workspace s =
     (if \<not> truthy_str workspace then (Response 400 (ErrorBody ''workspace is required''), s)
      else let w = the workspace;
               s1 = stopPages w s;
               s2 = (case map_of (browserConnections s1) w of
                       None \<Rightarrow> s1
                     | Some b \<Rightarrow> (start_browser_close b s1)
                                   \<lparr>browserConnections := AList.delete w (browserConnections s1)\<rparr>);
               s3 = stopWorkspace w s2
           in (Response 200 (StopBody w), s3))"

subsection \<open>GET /pages, POST /pages, DELETE /pages/:name\<close>

text \<open>
  \<^verbatim>\<open>getCurrentBrowser\<close>. The result \<open>Inr None\<close> is the \<^verbatim>\<open>undefined\<close> that
  \<^verbatim>\<open>browserConnections.get(defaultWs)!\<close> returns when no connection was made.
\<close>

definition getCurrentBrowser :: "env \<Rightarrow> WorkspacesConfig \<Rightarrow> state \<Rightarrow> nat option result \<times> state" where
  "getCurrentBrowser e cfg s =
     (if \<not> truthy_str (getCurrentWorkspace s) then
        (let defaultWs = defaultWorkspace cfg in
         case switchWorkspace e (cfg_workspaces cfg) defaultWs s of
           (Inl m, s1) \<Rightarrow> (Inl m, s1)
         | (Inr inst, s1) \<Rightarrow>
             if truthy_str (wsEndpoint inst) \<and> map_of (browserConnections s1) defaultWs = None then
               (case do_connect e (the (wsEndpoint inst)) s1 of
                  (Inl m, s2) \<Rightarrow> (Inl m, s2)
                | (Inr b, s2) \<Rightarrow>
                    (let s3 = s2\<lparr>browserConnections := AList.update defaultWs b (browserConnections s2)\<rparr>
                     in (Inr (map_of (browserConnections s3) defaultWs), s3)))
             else (Inr (map_of (browserConnections s1) defaultWs), s1))
      else (let current = the (getCurrentWorkspace s) in
            case map_of (browserConnections s) current of
              None \<Rightarrow> (Inl (''No browser connection for workspace: '' @ current), s)
            | Some b \<Rightarrow> (Inr (Some b), s)))"

definition get_pages :: "state \<Rightarrow> response" where
  "get_pages s = Response 200 (PagesBody (map fst (pageRegistry s)))"

definition page_response :: "string \<Rightarrow> PageEntry \<Rightarrow> state \<Rightarrow> response" where
  "page_response name entry s =
     Response 200
       (PageBody (case getCurrentInstance s of
                    None \<Rightarrow> []
                  | Some inst \<Rightarrow> (case wsEndpoint inst of None \<Rightarrow> [] | Some u \<Rightarrow> u))
                 name (entry_targetId entry))"

definition create_failed :: "string \<Rightarrow> response" where
  "create_failed m = Response 500 (ErrorBody (''Failed to create page: '' @ m))"

definition post_pages ::
  "env \<Rightarrow> WorkspacesConfig \<Rightarrow> string option \<Rightarrow> dims option \<Rightarrow> state \<Rightarrow> response \<times> state" where
  "post_pages e cfg name viewport s =
     (if \<not> truthy_str name then
        (Response 400 (ErrorBody ''name is required and must be a string''), s)
      else let nm = the name in
        case map_of (pageRegistry s) nm of
          Some entry \<Rightarrow> (page_response nm entry s, s)
        | None \<Rightarrow>
            (case getCurrentBrowser e cfg s of
               (Inl m, s1) \<Rightarrow> (create_failed m, s1)
             | (Inr None, s1) \<Rightarrow>
                 (create_failed ''Cannot read properties of undefined (reading 'contexts')'', s1)
             | (Inr (Some b), s1) \<Rightarrow>
                 (case contexts (browsers s1 ! b) of
                    [] \<Rightarrow> (Response 500 (ErrorBody ''No browser context available''), s1)
                  | c # _ \<Rightarrow>
                      (case do_newPage e c s1 of
                         (Inl m, s2) \<Rightarrow> (create_failed m, s2)
                       | (Inr h, s2) \<Rightarrow>
                           (case (case viewport of
                                    None \<Rightarrow> (None, s2)
                                  | Some _ \<Rightarrow> do_setViewportSize e h s2) of
                              (Some m, s3) \<Rightarrow> (create_failed m, s3)
                            | (None, s3) \<Rightarrow>
                                (case do_getTargetInfo e h s3 of
                                   (Inl m, s4) \<Rightarrow> (create_failed m, s4)
                                 | (Inr tid, s4) \<Rightarrow>
                                     (let entry = \<lparr>entry_page = h, entry_targetId = tid,
                                                    entry_workspace = getCurrentWorkspace s4\<rparr>;
                                          s5 = s4\<lparr>pageRegistry := AList.update nm entry (pageRegistry s4),
                                                  pages := (pages s4)[h := (pages s4 ! h)
                                                             \<lparr>onClose := onClose (pages s4 ! h) @ [nm]\<rparr>]\<rparr>
                                      in (page_response nm entry s5, s5))))))))"

definition delete_page :: "env \<Rightarrow> string \<Rightarrow> state \<Rightarrow> response \<times> state" where
  "delete_page e name s =
     (case map_of (pageRegistry s) name of
        Some entry \<Rightarrow>
          (case do_page_close e (entry_page entry) s of
             (Some m, s1) \<Rightarrow> (Unhandled m, s1)
           | (None, s1) \<Rightarrow>
               (Response 200 SuccessBody,
                s1\<lparr>pageRegistry := AList.delete name (pageRegistry s1)\<rparr>))
      | None \<Rightarrow> (Response 404 (ErrorBody ''page not found''), s))"

subsection \<open>Shutdown (cleanup)\<close>

definition destroySockets :: "state \<Rightarrow> state" where
  "destroySockets s =
     s\<lparr>trace := trace s @ map SocketDestroy (connections s), connections := []\<rparr>"

text \<open>
  The loop over \<^verbatim>\<open>pageRegistry.values()\<close>: the iterator of a \<^verbatim>\<open>Map\<close> is live, so an
  entry that a \<^verbatim>\<open>close\<close> listener has deleted before its turn is not visited.
\<close>

fun closePages :: "env \<Rightarrow> (string \<times> PageEntry) list \<Rightarrow> state \<Rightarrow> state" where
  "closePages e [] s = s"
| "closePages e (ne # rest) s =
     (if map_of (pageRegistry s) (fst ne) = Some (snd ne)
      then closePages e rest (snd (do_page_close e (entry_page (snd ne)) s))
      else closePages e rest s)"

definition closeBrowsers :: "env \<Rightarrow> nat list \<Rightarrow> state \<Rightarrow> state" where
  "closeBrowsers e bs s = foldl (\<lambda>st b. snd (do_browser_close e b st)) s bs"

definition cleanup :: "env \<Rightarrow> state \<Rightarrow> state" where
  "cleanup e s =
     (if cleaningUp s then s
      else let s0 = s\<lparr>cleaningUp := True\<rparr>;
               s1 = destroySockets s0;
               s2 = (closePages e (pageRegistry s1) s1)\<lparr>pageRegistry := []\<rparr>;
               s3 = (closeBrowsers e (map snd (browserConnections s2)) s2)\<lparr>browserConnections := []\<rparr>;
               s4 = stopAll s3
           in s4\<lparr>listening := False, trace := trace s4 @ [ServerClose]\<rparr>)"

text \<open>The server's \<^verbatim>\<open>connection\<close> event and a socket's \<^verbatim>\<open>close\<close> event.\<close>

definition socket_connected :: "nat \<Rightarrow> state \<Rightarrow> state" where
  "socket_connected k s =
     (if k \<in> set (connections s) then s else s\<lparr>connections := connections s @ [k]\<rparr>)"

definition socket_closed :: "nat \<Rightarrow> state \<Rightarrow> state" where
  "socket_closed k s = s\<lparr>connections := removeAll k (connections s)\<rparr>"


section \<open>The client library (connect)\<close>

text \<open>
  The client of \<^verbatim>\<open>client.ts\<close> talks to the browser directly and keeps a registry of its
  own, from a page name to a browser context. The browser is a store of pages and of
  contexts; the marker of a page is the value of \<^verbatim>\<open>globalThis.__devBrowserPageName\<close> in it,
  \<open>None\<close> when that is not a string.
\<close>

record ClientPage =
  cp_marker :: "string option"
  cp_closed :: bool

text \<open>A context holds its pages and the arguments of the init scripts added to it.\<close>

record BrowserContext =
  bc_pages :: "nat list"
  initScripts :: "string list"

datatype client_event =
    Evaluate nat
  | NewContext nat
  | AddInitScript nat string
  | ContextNewPage nat nat
  | ContextClose nat
  | BrowserDisconnect

text \<open>
  What the client cannot decide: the contexts and page markers found on connecting, and
  at each step whether a call of the automation library rejects.
\<close>

record client_env =
  chromiumConnect :: "string \<Rightarrow> string option list list result"
  evaluateFails :: "nat \<Rightarrow> bool"
  newContextFails :: "nat \<Rightarrow> string option"
  addInitScriptFails :: "nat \<Rightarrow> string option"
  contextNewPageFails :: "nat \<Rightarrow> string option"
  contextCloseFails :: "nat \<Rightarrow> string option"

record client =
  cl_tick :: nat
  cl_trace :: "client_event list"
  cl_pages :: "ClientPage list"
  cl_contexts :: "BrowserContext list"
  registry :: "(string \<times> nat) list"
  cl_connected :: bool




fun alloc_bcontexts :: "nat \<Rightarrow> string option list list \<Rightarrow> BrowserContext list" where
  "alloc_bcontexts n [] = []"
| "alloc_bcontexts n (ms # r) =
     \<lparr>bc_pages = [n ..< n + length ms], initScripts = []\<rparr> # alloc_bcontexts (n + length ms) r"










definition client_list :: "client \<Rightarrow> string list" where
  "client_list s = map fst (registry s)"

text \<open>\<^verbatim>\<open>context.close()\<close> closes the pages of the context.\<close>

definition contextClose :: "client_env \<Rightarrow> nat \<Rightarrow> client \<Rightarrow> string option \<times> client" where
  "contextClose e c s =
     (case contextCloseFails e (cl_tick s) of
        Some m \<Rightarrow> (Some m, s\<lparr>cl_tick := Suc (cl_tick s), cl_trace := cl_trace s @ [ContextClose c]\<rparr>)
      | None \<Rightarrow>
          (None,
           s\<lparr>cl_tick := Suc (cl_tick s),
             cl_trace := cl_trace s @ [ContextClose c],
             cl_pages := foldl (\<lambda>ps h. ps[h := (ps ! h)\<lparr>cp_closed := True\<rparr>]) (cl_pages s)
                           (bc_pages (cl_contexts s ! c)),
             cl_contexts := (cl_contexts s)[c := (cl_contexts s ! c)\<lparr>bc_pages := []\<rparr>]\<rparr>))"

text \<open>
  \<^verbatim>\<open>close(name)\<close> of the client; \<open>Some m\<close> is the rejection of the returned promise, \<open>None\<close>
  its fulfilment.
\<close>

definition client_close :: "client_env \<Rightarrow> string \<Rightarrow> client \<Rightarrow> string option \<times> client" where
  "client_close e name s =
     (case map_of (registry s) name of
        Some context \<Rightarrow>
          (case contextClose e context s of
             (Some m, s1) \<Rightarrow> (Some m, s1)
           | (None, s1) \<Rightarrow> (None, s1\<lparr>registry := AList.delete name (registry s1)\<rparr>))
      | None \<Rightarrow> (None, s))"

definition client_disconnect :: "client \<Rightarrow> client" where
  "client_disconnect s =
     s\<lparr>cl_trace := cl_trace s @ [BrowserDisconnect], cl_connected := False\<rparr>"
section \<open>Auxiliary definitions for the statements\<close>

text \<open>The state without its tick and trace: what input and output alone cannot change.\<close>

definition core :: "state \<Rightarrow> state" where
  "core s = s\<lparr>tick := 0, trace := []\<rparr>"

text \<open>The events of one kind in the trace.\<close>

definition is_Exec :: "event \<Rightarrow> bool" where
  "is_Exec ev = (case ev of Exec _ \<Rightarrow> True | _ \<Rightarrow> False)"

definition is_Fetch :: "event \<Rightarrow> bool" where
  "is_Fetch ev = (case ev of Fetch _ \<Rightarrow> True | _ \<Rightarrow> False)"

definition execs :: "state \<Rightarrow> event list" where
  "execs s = filter is_Exec (trace s)"

definition fetches :: "state \<Rightarrow> event list" where
  "fetches s = filter is_Fetch (trace s)"

text \<open>What one run of the display utility, asked at tick \<open>k\<close>, detects.\<close>

definition detect :: "env \<Rightarrow> nat \<Rightarrow> DisplayInfo option" where
  "detect e k = (case execAsync e DISPLAYPLACER_LIST k of
                   Inl _ \<Rightarrow> None
                 | Inr out \<Rightarrow> findVirtual (parseScreens out))"

text \<open>Any number of launches, one after the other, whatever their outcome.\<close>

fun launchAll :: "env \<Rightarrow> ChromeLaunchOptions list \<Rightarrow> state \<Rightarrow> state" where
  "launchAll e [] s = s"
| "launchAll e (options # rest) s = launchAll e rest (snd (launchChrome e options s))"

text \<open>
  The operating-system commands that resolving the placement can run: none, the query,
  the query and the creation, or the query, the creation and the one retry.
\<close>

definition resolution_runs :: "event list list" where
  "resolution_runs =
     [[], [Exec DISPLAYPLACER_LIST], [Exec DISPLAYPLACER_LIST, Exec BETTERDISPLAY_CREATE],
      [Exec DISPLAYPLACER_LIST, Exec BETTERDISPLAY_CREATE, Exec DISPLAYPLACER_LIST]]"

section \<open>Concrete environments and states\<close>

text \<open>
  The output of the display utility on a laptop with one external screen to the right
  of the built-in one.
\<close>

definition SAMPLE_DISPLAYS :: string where
  "SAMPLE_DISPLAYS = join_with [CHR 0x0A]
     [''Persistent screen id: 37D8832A-2D66'',
      ''Type: MacBook built in screen'',
      ''Resolution: 1512x982'',
      ''Origin: (0,0) - main display'',
      '''',
      ''Persistent screen id: 5B1F6A2C-99EC'',
      ''Type: 24 inch external screen'',
      ''Resolution: 1920x1080'',
      ''Origin: (1512,0)'']"

text \<open>
  An environment where everything succeeds: the display is found, the browser answers
  the first poll, and its one live page carries the marker \<open>home\<close>.
\<close>

definition env_ok :: env where
  "env_ok =
     \<lparr>platform = ''darwin'', LOCALAPPDATA = [],
      WORKSPACE_DATA_DIR = ''/Users/dev/.dev-browser/workspaces'',
      joinPath = (\<lambda>a b. a @ ''/'' @ b),
      execAsync = (\<lambda>cmd k. if cmd = DISPLAYPLACER_LIST then Inr SAMPLE_DISPLAYS else Inr []),
      mkdirSync = (\<lambda>dir k. None),
      spawnStarts = (\<lambda>k. True),
      fetchVersion = (\<lambda>p k. FetchJson (Some (''ws://127.0.0.1:'' @ show_int p @ ''/devtools/browser''))),
      connectOverCDP = (\<lambda>ws k. Inr [[(''L'' @ show_nat k, Some ''home'')]]),
      newPage = (\<lambda>k. Inr (''T'' @ show_nat k)),
      setViewportSize = (\<lambda>k. None),
      getTargetInfo = (\<lambda>k. None),
      pageClose = (\<lambda>k. None),
      browserClose = (\<lambda>k. None)\<rparr>"

text \<open>The same with every operating-system command failing.\<close>

definition env_nodisplay :: env where
  "env_nodisplay = env_ok\<lparr>execAsync := (\<lambda>cmd k. Inl ''command not found'')\<rparr>"

text \<open>The same with a browser that never answers on its debugging port.\<close>

definition env_nocdp :: env where
  "env_nocdp = env_nodisplay\<lparr>fetchVersion := (\<lambda>p k. FetchRejects ''fetch failed'')\<rparr>"

text \<open>The configuration that \<^verbatim>\<open>loadConfig\<close> writes when none exists.\<close>

definition DEFAULT_CONFIG :: WorkspacesConfig where
  "DEFAULT_CONFIG =
     \<lparr>cfg_workspaces =
        [(''personal'', \<lparr>cfg_profileDirectory = ''Default'', cfg_port = 9230\<rparr>),
         (''work'', \<lparr>cfg_profileDirectory = ''James-Work'', cfg_port = 9231\<rparr>)],
      defaultWorkspace = ''personal''\<rparr>"

text \<open>The state after \<open>personal\<close> was launched from the initial state without a display.\<close>

definition personal_args :: "string list" where
  "personal_args =
     [''--user-data-dir=/Users/dev/.dev-browser/workspaces/personal'',
      ''--remote-debugging-port=9230'', ''--window-size=1920,1080'',
      ''--no-first-run'', ''--no-default-browser-check'',
      ''--disable-background-timer-throttling'',
      ''--disable-backgrounding-occluded-windows'',
      ''--disable-renderer-backgrounding'', ''--headless=new'',
      ''about:blank'']"

definition CHROME_DARWIN :: string where
  "CHROME_DARWIN = ''/Applications/Google Chrome.app/Contents/MacOS/Google Chrome''"

definition inst_personal :: ChromeInstance where
  "inst_personal =
     \<lparr>process = 0, port = 9230, profileDirectory = ''Default'',
      wsEndpoint = Some ''ws://127.0.0.1:9230/devtools/browser''\<rparr>"

definition s_personal :: state where
  "s_personal =
     init_state\<lparr>tick := 5,
       trace := [Exec DISPLAYPLACER_LIST, Exec BETTERDISPLAY_CREATE,
                 Mkdir ''/Users/dev/.dev-browser/workspaces/personal'',
                 Spawn CHROME_DARWIN personal_args, Fetch 9230],
       procs := [\<lparr>spawnfile = CHROME_DARWIN, spawnargs = personal_args, killed = False,
                   exited = False, signals = []\<rparr>],
       cachedVirtualDisplay := Some None,
       workspaces := [(''personal'', inst_personal)],
       currentWorkspace := Some ''personal''\<rparr>"

definition personal_opts :: ChromeLaunchOptions where
  "personal_opts =
     \<lparr>workspaceName = ''personal'', opt_profileDirectory = ''Default'', opt_port = 9230,
      headless = Some False, windowSize = None\<rparr>"

definition work_opts :: ChromeLaunchOptions where
  "work_opts =
     \<lparr>workspaceName = ''work'', opt_profileDirectory = ''James-Work'', opt_port = 9231,
      headless = Some False, windowSize = None\<rparr>"

text \<open>The placement that \<open>SAMPLE_DISPLAYS\<close> holds.\<close>

definition sample_display :: DisplayInfo where
  "sample_display =
     \<lparr>origin = \<lparr>px = 1512, py = 0\<rparr>, resolution = \<lparr>width = 1920, height = 1080\<rparr>\<rparr>"

section \<open>Kinds of events and their order\<close>










text \<open>
  The state after the first request \<^verbatim>\<open>POST /pages {name: "home"}\<close> in the environment
  where everything succeeds, and the same with one client socket open.
\<close>

definition home_args :: "string list" where
  "home_args =
     [''--user-data-dir=/Users/dev/.dev-browser/workspaces/personal'',
      ''--remote-debugging-port=9230'', ''--window-size=1920,1080'',
      ''--no-first-run'', ''--no-default-browser-check'',
      ''--disable-background-timer-throttling'',
      ''--disable-backgrounding-occluded-windows'',
      ''--disable-renderer-backgrounding'', ''--window-position=1512,0'',
      ''about:blank'']"

definition s_home :: state where
  "s_home =
     init_state\<lparr>tick := 7,
       trace := [Exec DISPLAYPLACER_LIST,
                 Mkdir ''/Users/dev/.dev-browser/workspaces/personal'',
                 Spawn CHROME_DARWIN home_args,
                 Fetch 9230, Connect ''ws://127.0.0.1:9230/devtools/browser'',
                 NewPage 1, TargetInfo 1],
       procs := [\<lparr>spawnfile = CHROME_DARWIN, spawnargs = home_args, killed = False,
                   exited = False, signals = []\<rparr>],
       pages := [\<lparr>targetId = ''L4'', marker = Some ''home'', closed = False, onClose = []\<rparr>,
                 \<lparr>targetId = ''T5'', marker = None, closed = False, onClose = [''home'']\<rparr>],
       ctxs := [\<lparr>ctx_pages = [0, 1]\<rparr>],
       browsers := [\<lparr>contexts = [0], isConnected = True\<rparr>],
       cachedVirtualDisplay := Some (Some sample_display),
       workspaces := [(''personal'', inst_personal)],
       currentWorkspace := Some ''personal'',
       pageRegistry := [(''home'', \<lparr>entry_page = 1, entry_targetId = ''T5'',
                                    entry_workspace = Some ''personal''\<rparr>)],
       browserConnections := [(''personal'', 0)]\<rparr>"

definition s_shutdown :: state where
  "s_shutdown = socket_connected 7 s_home"

section \<open>The states the server can reach\<close>

text \<open>
  One step is a request handled to its end, a shutdown, the completion of a page close
  that was not awaited, the firing of a kill timer, the exit of a process, or a socket
  opening or closing.
\<close>

inductive reachable :: "env \<Rightarrow> WorkspacesConfig \<Rightarrow> state \<Rightarrow> bool" for e cfg where
  init: "reachable e cfg init_state"
| switch: "reachable e cfg s \<Longrightarrow> reachable e cfg (snd (post_workspace_switch e cfg w s))"
| stop: "reachable e cfg s \<Longrightarrow> reachable e cfg (snd (post_workspace_stop w s))"
| page: "reachable e cfg s \<Longrightarrow> reachable e cfg (snd (post_pages e cfg nm vp s))"
| delete: "reachable e cfg s \<Longrightarrow> reachable e cfg (snd (delete_page e nm s))"
| shutdown: "reachable e cfg s \<Longrightarrow> reachable e cfg (cleanup e s)"
| closed: "reachable e cfg s \<Longrightarrow> reachable e cfg (complete_close e s)"
| timer: "reachable e cfg s \<Longrightarrow> reachable e cfg (fireTimer s)"
| exits: "reachable e cfg s \<Longrightarrow> reachable e cfg (proc_exits h s)"
| socket_open: "reachable e cfg s \<Longrightarrow> reachable e cfg (socket_connected k s)"
| socket_close: "reachable e cfg s \<Longrightarrow> reachable e cfg (socket_closed k s)"

text \<open>
  The server reads the empty workspace name as no name: the two workspace handlers reject
  it, and \<open>getCurrentBrowser\<close> takes a pointer to it for no pointer. So the empty name is
  tracked or current only when it is the default workspace.
\<close>

definition empty_name_inv :: "WorkspacesConfig \<Rightarrow> state \<Rightarrow> bool" where
  "empty_name_inv cfg s =
     ((map_of (workspaces s) [] \<noteq> None \<or> currentWorkspace s = Some [])
      \<longrightarrow> defaultWorkspace cfg = [])"

text \<open>A configuration whose only workspace, the default one, has the empty name.\<close>

definition EMPTY_NAME_CONFIG :: WorkspacesConfig where
  "EMPTY_NAME_CONFIG =
     \<lparr>cfg_workspaces = [([], \<lparr>cfg_profileDirectory = ''Default'', cfg_port = 9230\<rparr>)],
      defaultWorkspace = []\<rparr>"

text \<open>The state after the first request for the page \<open>home\<close> under that configuration.\<close>

definition s_anon :: state where
  "s_anon = snd (post_pages env_ok EMPTY_NAME_CONFIG (Some ''home'') None init_state)"

text \<open>
  What every reachable state satisfies: the reading of the empty name above, and one
  registry entry per name, as in a \<^verbatim>\<open>Map\<close>.
\<close>

definition server_inv :: "WorkspacesConfig \<Rightarrow> state \<Rightarrow> bool" where
  "server_inv cfg s = (empty_name_inv cfg s \<and> distinct (map fst (pageRegistry s)))"

text \<open>
  After the page \<open>home\<close> in \<open>personal\<close>: a switch to \<open>work\<close> and a request for the page
  \<open>docs\<close> there.
\<close>

definition work_args :: "string list" where
  "work_args =
     [''--user-data-dir=/Users/dev/.dev-browser/workspaces/work'',
      ''--remote-debugging-port=9231'', ''--window-size=1920,1080'',
      ''--no-first-run'', ''--no-default-browser-check'',
      ''--disable-background-timer-throttling'',
      ''--disable-backgrounding-occluded-windows'',
      ''--disable-renderer-backgrounding'', ''--window-position=1512,0'',
      ''about:blank'']"

definition inst_work :: ChromeInstance where
  "inst_work =
     \<lparr>process = 1, port = 9231, profileDirectory = ''James-Work'',
      wsEndpoint = Some ''ws://127.0.0.1:9231/devtools/browser''\<rparr>"

definition s_two :: state where
  "s_two =
     s_home\<lparr>tick := 13,
       trace := trace s_home @
                [Mkdir ''/Users/dev/.dev-browser/workspaces/work'',
                 Spawn CHROME_DARWIN work_args,
                 Fetch 9231, Connect ''ws://127.0.0.1:9231/devtools/browser'',
                 NewPage 3, TargetInfo 3],
       procs := procs s_home @
                [\<lparr>spawnfile = CHROME_DARWIN, spawnargs = work_args, killed = False,
                  exited = False, signals = []\<rparr>],
       pages := pages s_home @
                [\<lparr>targetId = ''L10'', marker = Some ''home'', closed = False, onClose = []\<rparr>,
                 \<lparr>targetId = ''T11'', marker = None, closed = False, onClose = [''docs'']\<rparr>],
       ctxs := [\<lparr>ctx_pages = [0, 1]\<rparr>, \<lparr>ctx_pages = [2, 3]\<rparr>],
       browsers := [\<lparr>contexts = [0], isConnected = True\<rparr>,
                    \<lparr>contexts = [1], isConnected = True\<rparr>],
       workspaces := [(''personal'', inst_personal), (''work'', inst_work)],
       currentWorkspace := Some ''work'',
       pageRegistry := [(''home'', \<lparr>entry_page = 1, entry_targetId = ''T5'',
                                    entry_workspace = Some ''personal''\<rparr>),
                        (''docs'', \<lparr>entry_page = 3, entry_targetId = ''T11'',
                                    entry_workspace = Some ''work''\<rparr>)],
       browserConnections := [(''personal'', 0), (''work'', 1)]\<rparr>"


text \<open>
  The state after \<^verbatim>\<open>POST /workspace/switch\<close> to \<open>personal\<close> from the initial state: the
  connection holds one context with the live page \<open>L4\<close>, whose marker is \<open>home\<close>, and the
  registry is empty.
\<close>

definition s_switched :: state where
  "s_switched =
     init_state\<lparr>tick := 5,
       trace := [Exec DISPLAYPLACER_LIST,
                 Mkdir ''/Users/dev/.dev-browser/workspaces/personal'',
                 Spawn CHROME_DARWIN home_args,
                 Fetch 9230, Connect ''ws://127.0.0.1:9230/devtools/browser''],
       procs := [\<lparr>spawnfile = CHROME_DARWIN, spawnargs = home_args, killed = False,
                   exited = False, signals = []\<rparr>],
       pages := [\<lparr>targetId = ''L4'', marker = Some ''home'', closed = False, onClose = []\<rparr>],
       ctxs := [\<lparr>ctx_pages = [0]\<rparr>],
       browsers := [\<lparr>contexts = [0], isConnected = True\<rparr>],
       cachedVirtualDisplay := Some (Some sample_display),
       workspaces := [(''personal'', inst_personal)],
       currentWorkspace := Some ''personal'',
       browserConnections := [(''personal'', 0)]\<rparr>"

text \<open>
  For the client: a browser with one context and one live page, whose marker is \<open>home\<close>,
  and no call that rejects; and the same browser with the page navigating while the
  client connects.
\<close>

definition cenv_ok :: client_env where
  "cenv_ok =
     \<lparr>chromiumConnect = (\<lambda>ws. Inr [[Some ''home'']]),
      evaluateFails = (\<lambda>k. False),
      newContextFails = (\<lambda>k. None),
      addInitScriptFails = (\<lambda>k. None),
      contextNewPageFails = (\<lambda>k. None),
      contextCloseFails = (\<lambda>k. None)\<rparr>"

definition cenv_busy :: client_env where
  "cenv_busy = cenv_ok\<lparr>evaluateFails := (\<lambda>k. k = 0)\<rparr>"



section \<open>Frame lemmas\<close>

lemma core_upd [simp]:
  "core (s\<lparr>tick := a\<rparr>) = core s" "core (s\<lparr>trace := b\<rparr>) = core s"
  by (simp_all add: core_def)

lemma core_fields:
  assumes "core s' = core s"
  shows "procs s' = procs s" "timers s' = timers s" "pages s' = pages s" "ctxs s' = ctxs s"
    "browsers s' = browsers s" "closing s' = closing s"
    "cachedVirtualDisplay s' = cachedVirtualDisplay s" "workspaces s' = workspaces s"
    "currentWorkspace s' = currentWorkspace s" "pageRegistry s' = pageRegistry s"
    "browserConnections s' = browserConnections s" "connections s' = connections s"
    "cleaningUp s' = cleaningUp s" "listening s' = listening s"
proof -
  have "procs (core s') = procs (core s)" "timers (core s') = timers (core s)"
    "pages (core s') = pages (core s)" "ctxs (core s') = ctxs (core s)"
    "browsers (core s') = browsers (core s)" "closing (core s') = closing (core s)"
    "cachedVirtualDisplay (core s') = cachedVirtualDisplay (core s)"
    "workspaces (core s') = workspaces (core s)"
    "currentWorkspace (core s') = currentWorkspace (core s)"
    "pageRegistry (core s') = pageRegistry (core s)"
    "browserConnections (core s') = browserConnections (core s)"
    "connections (core s') = connections (core s)"
    "cleaningUp (core s') = cleaningUp (core s)" "listening (core s') = listening (core s)"
    using assms by simp_all
  then show "procs s' = procs s" "timers s' = timers s" "pages s' = pages s" "ctxs s' = ctxs s"
    "browsers s' = browsers s" "closing s' = closing s"
    "cachedVirtualDisplay s' = cachedVirtualDisplay s" "workspaces s' = workspaces s"
    "currentWorkspace s' = currentWorkspace s" "pageRegistry s' = pageRegistry s"
    "browserConnections s' = browserConnections s" "connections s' = connections s"
    "cleaningUp s' = cleaningUp s" "listening s' = listening s"
    by (simp_all add: core_def)
qed

lemma snd_eqD: "f = (r, s') \<Longrightarrow> snd f = s'"
  by simp

lemma do_exec_core [simp]: "core (snd (do_exec e cmd s)) = core s"
  by (simp add: do_exec_def)

lemma do_sleep_core [simp]: "core (do_sleep ms s) = core s"
  by (simp add: do_sleep_def)

lemma do_fetch_core [simp]: "core (snd (do_fetch e p s)) = core s"
  by (simp add: do_fetch_def)

lemma do_mkdir_core [simp]: "core (snd (do_mkdir e d s)) = core s"
  by (simp add: do_mkdir_def)

lemma getVDP_core [simp]: "core (snd (getVirtualDisplayPosition e s)) = core s"
  by (auto simp: getVirtualDisplayPosition_def do_exec_def split: prod.splits sum.splits)

lemma ensure_core [simp]: "core (snd (ensureVirtualDisplay e s)) = core s"
  unfolding ensureVirtualDisplay_def
  by (auto split: prod.splits sum.splits option.splits
      dest!: snd_eqD[of "getVirtualDisplayPosition _ _"] snd_eqD[of "do_exec _ _ _"])

lemma buildChromeArgs_core [simp]: "core (snd (buildChromeArgs e opts s)) = core s"
  unfolding buildChromeArgs_def
  by (auto simp: Let_def split: prod.splits option.splits dest!: snd_eqD[of "do_mkdir _ _ _"])

lemma waitForCDP_loop_core [simp]: "core (snd (waitForCDP_loop e prt m d i le s)) = core s"
proof (induction e prt m d i le s rule: waitForCDP_loop.induct)
  case (1 e prt m d i le s)
  show ?case
    apply (subst waitForCDP_loop.simps)
    using 1 by (auto simp: Let_def split: option.splits)
qed

lemma waitForCDP_core [simp]: "core (snd (waitForCDP e prt m d s)) = core s"
  by (simp add: waitForCDP_def)

section \<open>Events of a kind\<close>

lemma execs_simps [simp]:
  "execs (s\<lparr>tick := a\<rparr>) = execs s"
  "execs (s\<lparr>procs := b\<rparr>) = execs s"
  "execs (s\<lparr>cachedVirtualDisplay := c\<rparr>) = execs s"
  "execs (s\<lparr>workspaces := d\<rparr>) = execs s"
  "execs (s\<lparr>currentWorkspace := f\<rparr>) = execs s"
  by (simp_all add: execs_def)

lemma do_sleep_execs [simp]: "execs (do_sleep ms s) = execs s"
  by (simp add: do_sleep_def execs_def is_Exec_def)

lemma do_fetch_execs [simp]: "execs (snd (do_fetch e p s)) = execs s"
  by (simp add: do_fetch_def execs_def is_Exec_def)

lemma do_mkdir_execs [simp]: "execs (snd (do_mkdir e d s)) = execs s"
  by (simp add: do_mkdir_def execs_def is_Exec_def)

lemma do_spawn_execs [simp]: "execs (snd (do_spawn e p a s)) = execs s"
  by (simp add: do_spawn_def execs_def is_Exec_def)

lemma buildChromeArgs_execs [simp]: "execs (snd (buildChromeArgs e opts s)) = execs s"
  unfolding buildChromeArgs_def
  by (auto simp: Let_def split: prod.splits option.splits dest!: snd_eqD[of "do_mkdir _ _ _"])

lemma waitForCDP_loop_execs [simp]: "execs (snd (waitForCDP_loop e prt m d i le s)) = execs s"
proof (induction e prt m d i le s rule: waitForCDP_loop.induct)
  case (1 e prt m d i le s)
  show ?case
    apply (subst waitForCDP_loop.simps)
    using 1 by (auto simp: Let_def split: option.splits)
qed

lemma waitForCDP_execs [simp]: "execs (snd (waitForCDP e prt m d s)) = execs s"
  by (simp add: waitForCDP_def)

section \<open>The display query\<close>

lemma getVDP_darwin:
  "platform e = ''darwin'' \<Longrightarrow>
   getVirtualDisplayPosition e s =
     (detect e (tick s), s\<lparr>tick := Suc (tick s), trace := trace s @ [Exec DISPLAYPLACER_LIST]\<rparr>)"
  by (auto simp: getVirtualDisplayPosition_def detect_def do_exec_def split: sum.splits)

lemma ensure_charact:
  "ensureVirtualDisplay e s =
     (if platform e \<noteq> ''darwin'' then (None, s)
      else if detect e (tick s) \<noteq> None then
        (detect e (tick s), s\<lparr>tick := tick s + 1, trace := trace s @ [Exec DISPLAYPLACER_LIST]\<rparr>)
      else if isl (execAsync e BETTERDISPLAY_CREATE (tick s + 1)) then
        (None, s\<lparr>tick := tick s + 2,
                 trace := trace s @ [Exec DISPLAYPLACER_LIST, Exec BETTERDISPLAY_CREATE]\<rparr>)
      else
        (detect e (tick s + 2),
         s\<lparr>tick := tick s + 3,
           trace := trace s @ [Exec DISPLAYPLACER_LIST, Exec BETTERDISPLAY_CREATE, Sleep 1000,
                               Exec DISPLAYPLACER_LIST]\<rparr>))"
  by (auto simp: ensureVirtualDisplay_def getVDP_darwin do_exec_def do_sleep_def
      split: sum.splits option.splits)


section \<open>Fetch events\<close>

lemma fetches_simps [simp]:
  "fetches (s\<lparr>tick := a\<rparr>) = fetches s"
  "fetches (s\<lparr>procs := b\<rparr>) = fetches s"
  "fetches (s\<lparr>cachedVirtualDisplay := c\<rparr>) = fetches s"
  by (simp_all add: fetches_def)

lemma do_sleep_fetches [simp]: "fetches (do_sleep ms s) = fetches s"
  by (simp add: do_sleep_def fetches_def is_Fetch_def)

lemma do_exec_fetches [simp]: "fetches (snd (do_exec e c s)) = fetches s"
  by (simp add: do_exec_def fetches_def is_Fetch_def)

lemma do_mkdir_fetches [simp]: "fetches (snd (do_mkdir e d s)) = fetches s"
  by (simp add: do_mkdir_def fetches_def is_Fetch_def)


lemma getVDP_fetches [simp]: "fetches (snd (getVirtualDisplayPosition e s)) = fetches s"
  by (auto simp: getVirtualDisplayPosition_def split: prod.splits sum.splits
      dest!: snd_eqD[of "do_exec _ _ _"])

lemma ensure_fetches [simp]: "fetches (snd (ensureVirtualDisplay e s)) = fetches s"
  unfolding ensureVirtualDisplay_def
  by (auto split: prod.splits sum.splits option.splits
      dest!: snd_eqD[of "getVirtualDisplayPosition _ _"] snd_eqD[of "do_exec _ _ _"])


section \<open>launchChrome\<close>

lemma resolveDisplay_cached: "cachedVirtualDisplay s \<noteq> None \<Longrightarrow> resolveDisplay e s = s"
  by (auto simp: resolveDisplay_def)

lemma resolveDisplay_resolved: "cachedVirtualDisplay (resolveDisplay e s) \<noteq> None"
  by (simp add: resolveDisplay_def Let_def)

lemma resolveDisplay_first:
  "cachedVirtualDisplay s = None \<Longrightarrow>
   cachedVirtualDisplay (resolveDisplay e s) = Some (fst (ensureVirtualDisplay e s))"
  by (simp add: resolveDisplay_def Let_def)

lemma resolveDisplay_fields:
  "procs (resolveDisplay e s) = procs s" "workspaces (resolveDisplay e s) = workspaces s"
  "currentWorkspace (resolveDisplay e s) = currentWorkspace s"
  "timers (resolveDisplay e s) = timers s" "pages (resolveDisplay e s) = pages s"
  "ctxs (resolveDisplay e s) = ctxs s" "browsers (resolveDisplay e s) = browsers s"
  "closing (resolveDisplay e s) = closing s" "pageRegistry (resolveDisplay e s) = pageRegistry s"
  "browserConnections (resolveDisplay e s) = browserConnections s"
  "connections (resolveDisplay e s) = connections s"
  "cleaningUp (resolveDisplay e s) = cleaningUp s" "listening (resolveDisplay e s) = listening s"
  by (simp_all add: resolveDisplay_def Let_def core_fields[OF ensure_core])

lemma buildChromeArgs_args:
  assumes "buildChromeArgs e opts s = (Inr args, s')"
  shows "(''--headless=new'' \<in> set args) = truthy_bool (headless opts)"
    and "(\<exists>a\<in>set args. startsWith a ''--window-position='') = (windowPosition opts \<noteq> None)"
  using assms unfolding buildChromeArgs_def truthy_bool_def
  by (auto simp: Let_def split: prod.splits option.splits if_splits)

text \<open>The three ways a launch can end.\<close>

lemma launchChrome_cases:
  assumes "launchChrome e options s = (r, s')"
  obtains
    (notfound) "findChromeExecutable e = None" "s' = s"
      "r = Inl (''Chrome executable not found for platform: '' @ platform e)"
  | (mkdir) m where "findChromeExecutable e \<noteq> None"
      "buildChromeArgs e (argsOptions options (resolveDisplay e s)) (resolveDisplay e s) = (Inl m, s')"
      "r = Inl m"
  | (spawned) chromePath args s2 w where "findChromeExecutable e = Some chromePath"
      "buildChromeArgs e (argsOptions options (resolveDisplay e s)) (resolveDisplay e s) = (Inr args, s2)"
      "waitForCDP e (opt_port options) 30 500 (snd (do_spawn e chromePath args s2)) = (w, s')"
      "r = (case w of Inl m \<Rightarrow> Inl m
            | Inr u \<Rightarrow> Inr \<lparr>process = length (procs s2), port = opt_port options,
                              profileDirectory = opt_profileDirectory options, wsEndpoint = u\<rparr>)"
  using assms unfolding launchChrome_def
  by (auto simp: Let_def do_spawn_def split: option.splits prod.splits sum.splits)

lemma do_spawn_fields:
  "procs (snd (do_spawn e p a s)) = procs s @ [\<lparr>spawnfile = p, spawnargs = a, killed = False,
       exited = (\<not> spawnStarts e (tick s)), signals = []\<rparr>]"
  "workspaces (snd (do_spawn e p a s)) = workspaces s"
  "currentWorkspace (snd (do_spawn e p a s)) = currentWorkspace s"
  "cachedVirtualDisplay (snd (do_spawn e p a s)) = cachedVirtualDisplay s"
  "timers (snd (do_spawn e p a s)) = timers s" "pages (snd (do_spawn e p a s)) = pages s"
  "ctxs (snd (do_spawn e p a s)) = ctxs s" "browsers (snd (do_spawn e p a s)) = browsers s"
  "closing (snd (do_spawn e p a s)) = closing s"
  "pageRegistry (snd (do_spawn e p a s)) = pageRegistry s"
  "browserConnections (snd (do_spawn e p a s)) = browserConnections s"
  "connections (snd (do_spawn e p a s)) = connections s"
  "cleaningUp (snd (do_spawn e p a s)) = cleaningUp s"
  "listening (snd (do_spawn e p a s)) = listening s"
  by (simp_all add: do_spawn_def)

text \<open>What a launch leaves alone.\<close>

lemma launchChrome_frame:
  assumes "launchChrome e options s = (r, s')"
  shows "workspaces s' = workspaces s" "currentWorkspace s' = currentWorkspace s"
    "timers s' = timers s" "pages s' = pages s" "ctxs s' = ctxs s" "browsers s' = browsers s"
    "closing s' = closing s" "pageRegistry s' = pageRegistry s"
    "browserConnections s' = browserConnections s" "connections s' = connections s"
    "cleaningUp s' = cleaningUp s" "listening s' = listening s"
proof -
  have "workspaces s' = workspaces s \<and> currentWorkspace s' = currentWorkspace s \<and>
    timers s' = timers s \<and> pages s' = pages s \<and> ctxs s' = ctxs s \<and> browsers s' = browsers s \<and>
    closing s' = closing s \<and> pageRegistry s' = pageRegistry s \<and>
    browserConnections s' = browserConnections s \<and> connections s' = connections s \<and>
    cleaningUp s' = cleaningUp s \<and> listening s' = listening s"
    using assms
  proof (cases rule: launchChrome_cases)
    case notfound
    then show ?thesis by simp
  next
    case (mkdir m)
    from mkdir(2) have "core s' = core (resolveDisplay e s)"
      using buildChromeArgs_core by (metis snd_conv)
    from core_fields[OF this] show ?thesis by (simp add: resolveDisplay_fields)
  next
    case (spawned chromePath args s2 w)
    from spawned(2) have c2: "core s2 = core (resolveDisplay e s)"
      using buildChromeArgs_core by (metis snd_conv)
    from spawned(3) have c3: "core s' = core (snd (do_spawn e chromePath args s2))"
      using waitForCDP_core by (metis snd_conv)
    show ?thesis
      using core_fields[OF c3] core_fields[OF c2]
      by (simp add: resolveDisplay_fields do_spawn_fields)
  qed
  then show "workspaces s' = workspaces s" "currentWorkspace s' = currentWorkspace s"
    "timers s' = timers s" "pages s' = pages s" "ctxs s' = ctxs s" "browsers s' = browsers s"
    "closing s' = closing s" "pageRegistry s' = pageRegistry s"
    "browserConnections s' = browserConnections s" "connections s' = connections s"
    "cleaningUp s' = cleaningUp s" "listening s' = listening s"
    by simp_all
qed

text \<open>A launch starts at most one process; a launch that succeeds starts exactly one.\<close>

lemma launchChrome_procs:
  assumes "launchChrome e options s = (r, s')"
  shows "procs s' = procs s \<or> (\<exists>p. procs s' = procs s @ [p])"
    and "\<not> isl r \<Longrightarrow> \<exists>p. procs s' = procs s @ [p] \<and> process (projr r) = length (procs s)"
proof -
  have "(procs s' = procs s \<and> isl r) \<or>
        (\<exists>p. procs s' = procs s @ [p] \<and> (\<not> isl r \<longrightarrow> process (projr r) = length (procs s)))"
    using assms
  proof (cases rule: launchChrome_cases)
    case notfound
    then show ?thesis by simp
  next
    case (mkdir m)
    from mkdir(2) have "core s' = core (resolveDisplay e s)"
      using buildChromeArgs_core by (metis snd_conv)
    from core_fields[OF this] mkdir(3) show ?thesis by (simp add: resolveDisplay_fields)
  next
    case (spawned chromePath args s2 w)
    from spawned(2) have c2: "core s2 = core (resolveDisplay e s)"
      using buildChromeArgs_core by (metis snd_conv)
    from spawned(3) have c3: "core s' = core (snd (do_spawn e chromePath args s2))"
      using waitForCDP_core by (metis snd_conv)
    show ?thesis
      using core_fields(1)[OF c3] core_fields(1)[OF c2] spawned(4)
      by (auto simp: resolveDisplay_fields do_spawn_fields split: sum.splits)
  qed
  then show "procs s' = procs s \<or> (\<exists>p. procs s' = procs s @ [p])"
    and "\<not> isl r \<Longrightarrow> \<exists>p. procs s' = procs s @ [p] \<and> process (projr r) = length (procs s)"
    by auto
qed




lemma resolveDisplay_fetches [simp]: "fetches (resolveDisplay e s) = fetches s"
  by (simp add: resolveDisplay_def Let_def)


lemma launchChrome_cache:
  assumes "launchChrome e options s = (r, s')"
  shows "cachedVirtualDisplay s' =
           (if findChromeExecutable e = None then cachedVirtualDisplay s
            else cachedVirtualDisplay (resolveDisplay e s))"
  using assms
proof (cases rule: launchChrome_cases)
  case notfound
  then show ?thesis by simp
next
  case (mkdir m)
  from mkdir(2) have "core s' = core (resolveDisplay e s)"
    using buildChromeArgs_core by (metis snd_conv)
  from core_fields(7)[OF this] mkdir(1) show ?thesis by auto
next
  case (spawned chromePath args s2 w)
  from spawned(2) have c2: "core s2 = core (resolveDisplay e s)"
    using buildChromeArgs_core by (metis snd_conv)
  from spawned(3) have c3: "core s' = core (snd (do_spawn e chromePath args s2))"
    using waitForCDP_core by (metis snd_conv)
  show ?thesis
    using core_fields(7)[OF c3] core_fields(7)[OF c2] spawned(1)
    by (simp add: do_spawn_fields)
qed

lemma windowPositionOf_None:
  "cachedVirtualDisplay s \<noteq> None \<Longrightarrow>
   (windowPositionOf s = None) = (cachedVirtualDisplay s = Some None)"
  by (auto simp: windowPositionOf_def split: option.splits)

lemma launchChrome_spawn_args:
  assumes "launchChrome e options s = (r, s')" and "procs s' \<noteq> procs s"
  shows "\<exists>p. procs s' = procs s @ [p] \<and> cachedVirtualDisplay s' \<noteq> None
           \<and> (''--headless=new'' \<in> set (spawnargs p))
               = (truthy_bool (headless options) \<or> cachedVirtualDisplay s' = Some None)
           \<and> (\<exists>a\<in>set (spawnargs p). startsWith a ''--window-position='')
               = (cachedVirtualDisplay s' \<noteq> Some None)"
  using assms(1)
proof (cases rule: launchChrome_cases)
  case notfound
  with assms(2) show ?thesis by simp
next
  case (mkdir m)
  from mkdir(2) have "core s' = core (resolveDisplay e s)"
    using buildChromeArgs_core by (metis snd_conv)
  from core_fields(1)[OF this] assms(2) show ?thesis by (simp add: resolveDisplay_fields)
next
  case (spawned chromePath args s2 w)
  let ?s1 = "resolveDisplay e s"
  from spawned(2) have c2: "core s2 = core ?s1"
    using buildChromeArgs_core by (metis snd_conv)
  from spawned(3) have c3: "core s' = core (snd (do_spawn e chromePath args s2))"
    using waitForCDP_core by (metis snd_conv)
  have pr: "procs s' = procs s @ [\<lparr>spawnfile = chromePath, spawnargs = args, killed = False,
       exited = (\<not> spawnStarts e (tick s2)), signals = []\<rparr>]"
    using core_fields(1)[OF c3] core_fields(1)[OF c2]
    by (simp add: do_spawn_fields resolveDisplay_fields)
  have ca: "cachedVirtualDisplay s' = cachedVirtualDisplay ?s1"
    using launchChrome_cache[OF assms(1)] spawned(1) by simp
  have ne: "cachedVirtualDisplay ?s1 \<noteq> None" by (rule resolveDisplay_resolved)
  have hl: "(''--headless=new'' \<in> set args)
              = (truthy_bool (headless options) \<or> cachedVirtualDisplay ?s1 = Some None)"
    using buildChromeArgs_args(1)[OF spawned(2)] windowPositionOf_None[OF ne]
    by (auto simp: argsOptions_def useHeadless_def truthy_bool_def)
  have wp: "(\<exists>a\<in>set args. startsWith a ''--window-position='')
              = (cachedVirtualDisplay ?s1 \<noteq> Some None)"
    using buildChromeArgs_args(2)[OF spawned(2)] windowPositionOf_None[OF ne]
    by (simp add: argsOptions_def)
  show ?thesis using pr ca ne hl wp by simp
qed

lemma detect_fails: "isl (execAsync e DISPLAYPLACER_LIST k) \<Longrightarrow> detect e k = None"
  by (auto simp: detect_def split: sum.splits)

lemma ensure_fails:
  "\<forall>k. isl (execAsync e DISPLAYPLACER_LIST k) \<Longrightarrow> fst (ensureVirtualDisplay e s) = None"
  by (simp add: ensure_charact detect_fails)

lemma launchAll_headless:
  assumes "\<forall>k. isl (execAsync e DISPLAYPLACER_LIST k)"
    and "cachedVirtualDisplay s = None \<or> cachedVirtualDisplay s = Some None"
  shows "\<exists>ps. procs (launchAll e optss s) = procs s @ ps
            \<and> (\<forall>p\<in>set ps. ''--headless=new'' \<in> set (spawnargs p)
                         \<and> \<not> (\<exists>a\<in>set (spawnargs p). startsWith a ''--window-position=''))"
  using assms(2)
proof (induction optss arbitrary: s)
  case Nil
  then show ?case by simp
next
  case (Cons options rest)
  obtain r s' where l: "launchChrome e options s = (r, s')" by (cases "launchChrome e options s")
  have inv: "cachedVirtualDisplay s' = None \<or> cachedVirtualDisplay s' = Some None"
    using launchChrome_cache[OF l] Cons.prems ensure_fails[OF assms(1), of s]
    by (auto simp: resolveDisplay_def Let_def)
  from Cons.IH[OF inv] obtain ps where ps: "procs (launchAll e rest s') = procs s' @ ps"
    "\<forall>p\<in>set ps. ''--headless=new'' \<in> set (spawnargs p)
                \<and> \<not> (\<exists>a\<in>set (spawnargs p). startsWith a ''--window-position='')" by blast
  show ?case
  proof (cases "procs s' = procs s")
    case True
    then show ?thesis using ps l by auto
  next
    case False
    from launchChrome_spawn_args[OF l False] inv obtain p where
      p: "procs s' = procs s @ [p]" "''--headless=new'' \<in> set (spawnargs p)"
         "\<not> (\<exists>a\<in>set (spawnargs p). startsWith a ''--window-position='')"
      by auto
    have "procs (launchAll e (options # rest) s) = procs s @ (p # ps)"
      using ps(1) p(1) l by simp
    moreover have "\<forall>q\<in>set (p # ps). ''--headless=new'' \<in> set (spawnargs q)
                \<and> \<not> (\<exists>a\<in>set (spawnargs q). startsWith a ''--window-position='')"
      using ps(2) p(2,3) by simp
    ultimately show ?thesis by blast
  qed
qed

lemma launchChrome_execs:
  assumes "launchChrome e options s = (r, s')"
  shows "execs s' = (if findChromeExecutable e = None then execs s
                     else execs (resolveDisplay e s))"
  using assms
proof (cases rule: launchChrome_cases)
  case notfound
  then show ?thesis by simp
next
  case (mkdir m)
  from mkdir(2) have "execs s' = execs (resolveDisplay e s)"
    using buildChromeArgs_execs by (metis snd_conv)
  with mkdir(1) show ?thesis by auto
next
  case (spawned chromePath args s2 w)
  from spawned(2) have c2: "execs s2 = execs (resolveDisplay e s)"
    using buildChromeArgs_execs by (metis snd_conv)
  from spawned(3) have c3: "execs s' = execs (snd (do_spawn e chromePath args s2))"
    using waitForCDP_execs by (metis snd_conv)
  show ?thesis using c2 c3 spawned(1) by simp
qed

lemma launchAll_cached:
  "cachedVirtualDisplay s \<noteq> None \<Longrightarrow>
   cachedVirtualDisplay (launchAll e optss s) = cachedVirtualDisplay s
   \<and> execs (launchAll e optss s) = execs s"
proof (induction optss arbitrary: s)
  case Nil
  then show ?case by simp
next
  case (Cons options rest)
  obtain r s' where l: "launchChrome e options s = (r, s')" by (cases "launchChrome e options s")
  have a: "cachedVirtualDisplay s' = cachedVirtualDisplay s" "execs s' = execs s"
    using launchChrome_cache[OF l] launchChrome_execs[OF l] resolveDisplay_cached[OF Cons.prems]
    by simp_all
  with Cons.prems have "cachedVirtualDisplay s' \<noteq> None" by simp
  from Cons.IH[OF this] a l show ?case by simp
qed

lemma ensure_execs:
  "\<exists>x\<in>set resolution_runs. execs (snd (ensureVirtualDisplay e s)) = execs s @ x"
  by (simp add: ensure_charact execs_def is_Exec_def resolution_runs_def)

lemma launchAll_execs:
  "\<exists>x\<in>set resolution_runs. execs (launchAll e optss s) = execs s @ x"
proof (induction optss arbitrary: s)
  case Nil
  then show ?case by (simp add: resolution_runs_def)
next
  case (Cons options rest)
  obtain r s' where l: "launchChrome e options s = (r, s')" by (cases "launchChrome e options s")
  show ?case
  proof (cases "cachedVirtualDisplay s = None \<and> findChromeExecutable e \<noteq> None")
    case True
    then have "cachedVirtualDisplay s' \<noteq> None"
      using launchChrome_cache[OF l] resolveDisplay_resolved[of e s] by auto
    then have "execs (launchAll e rest s') = execs s'" using launchAll_cached by blast
    moreover have "execs s' = execs (snd (ensureVirtualDisplay e s))"
      using launchChrome_execs[OF l] True by (auto simp: resolveDisplay_def Let_def)
    ultimately show ?thesis using ensure_execs[of e s] l by simp
  next
    case False
    then have "execs s' = execs s \<and> (cachedVirtualDisplay s \<noteq> None \<or> s' = s)"
      using launchChrome_execs[OF l] resolveDisplay_cached[of s e] l
      by (auto elim: launchChrome_cases)
    then show ?thesis using Cons.IH[of s'] l by auto
  qed
qed

section \<open>Evaluation of the concrete runs\<close>

lemma env_ok_fields [simp]:
  "platform env_ok = ''darwin''"
  "LOCALAPPDATA env_ok = []"
  "WORKSPACE_DATA_DIR env_ok = ''/Users/dev/.dev-browser/workspaces''"
  "joinPath env_ok = (\<lambda>a b. a @ ''/'' @ b)"
  "mkdirSync env_ok = (\<lambda>dir k. None)"
  "spawnStarts env_ok = (\<lambda>k. True)"
  "connectOverCDP env_ok = (\<lambda>ws k. Inr [[(''L'' @ show_nat k, Some ''home'')]])"
  "newPage env_ok = (\<lambda>k. Inr (''T'' @ show_nat k))"
  "setViewportSize env_ok = (\<lambda>k. None)"
  "getTargetInfo env_ok = (\<lambda>k. None)"
  "pageClose env_ok = (\<lambda>k. None)"
  "browserClose env_ok = (\<lambda>k. None)"
  "execAsync env_ok = (\<lambda>cmd k. if cmd = DISPLAYPLACER_LIST then Inr SAMPLE_DISPLAYS else Inr [])"
  "fetchVersion env_ok = (\<lambda>p k. FetchJson (Some (''ws://127.0.0.1:'' @ show_int p @ ''/devtools/browser'')))"
  by (simp_all add: env_ok_def)

lemma env_nodisplay_fields [simp]:
  "platform env_nodisplay = ''darwin''"
  "LOCALAPPDATA env_nodisplay = []"
  "WORKSPACE_DATA_DIR env_nodisplay = ''/Users/dev/.dev-browser/workspaces''"
  "joinPath env_nodisplay = (\<lambda>a b. a @ ''/'' @ b)"
  "mkdirSync env_nodisplay = (\<lambda>dir k. None)"
  "spawnStarts env_nodisplay = (\<lambda>k. True)"
  "connectOverCDP env_nodisplay = (\<lambda>ws k. Inr [[(''L'' @ show_nat k, Some ''home'')]])"
  "newPage env_nodisplay = (\<lambda>k. Inr (''T'' @ show_nat k))"
  "setViewportSize env_nodisplay = (\<lambda>k. None)"
  "getTargetInfo env_nodisplay = (\<lambda>k. None)"
  "pageClose env_nodisplay = (\<lambda>k. None)"
  "browserClose env_nodisplay = (\<lambda>k. None)"
  "execAsync env_nodisplay = (\<lambda>cmd k. Inl ''command not found'')"
  "fetchVersion env_nodisplay = (\<lambda>p k. FetchJson (Some (''ws://127.0.0.1:'' @ show_int p @ ''/devtools/browser'')))"
  by (simp_all add: env_nodisplay_def env_ok_def)

lemma env_nocdp_fields [simp]:
  "platform env_nocdp = ''darwin''"
  "LOCALAPPDATA env_nocdp = []"
  "WORKSPACE_DATA_DIR env_nocdp = ''/Users/dev/.dev-browser/workspaces''"
  "joinPath env_nocdp = (\<lambda>a b. a @ ''/'' @ b)"
  "mkdirSync env_nocdp = (\<lambda>dir k. None)"
  "spawnStarts env_nocdp = (\<lambda>k. True)"
  "connectOverCDP env_nocdp = (\<lambda>ws k. Inr [[(''L'' @ show_nat k, Some ''home'')]])"
  "newPage env_nocdp = (\<lambda>k. Inr (''T'' @ show_nat k))"
  "setViewportSize env_nocdp = (\<lambda>k. None)"
  "getTargetInfo env_nocdp = (\<lambda>k. None)"
  "pageClose env_nocdp = (\<lambda>k. None)"
  "browserClose env_nocdp = (\<lambda>k. None)"
  "execAsync env_nocdp = (\<lambda>cmd k. Inl ''command not found'')"
  "fetchVersion env_nocdp = (\<lambda>p k. FetchRejects ''fetch failed'')"
  by (simp_all add: env_nocdp_def env_nodisplay_def env_ok_def)

lemma sample_parsed: "findVirtual (parseScreens SAMPLE_DISPLAYS) = Some sample_display"
  by (simp add: SAMPLE_DISPLAYS_def parseScreens_def parseLine_def pushScreen_def
      emptyScreen_def trim_def isWhiteSpace_def truthy_str_def origin_at_def resolution_at_def
      expect_def signed_digits_def digits1_def isDigit_def parseInt_def digits_val_def
      digit_val_def Let_def sample_display_def)

lemma detect_envs [simp]:
  "detect env_ok k = Some sample_display"
  "detect env_nodisplay k = None"
  "detect env_nocdp k = None"
  by (simp_all add: detect_def sample_parsed)

lemmas eval_defs =
  switchWorkspace_def launchChrome_def findChromeExecutable_def CHROME_PATHS_def
  resolveDisplay_def argsOptions_def useHeadless_def windowPositionOf_def truthy_bool_def
  buildChromeArgs_def do_mkdir_def do_spawn_def do_fetch_def do_sleep_def do_exec_def
  fetch_success_def fetch_error_def ensure_charact
  DEFAULT_WINDOW_SIZE_def show_int_def show_nat.simps digit_char_def
  init_state_def DEFAULT_CONFIG_def Let_def
  personal_args_def CHROME_DARWIN_def inst_personal_def s_personal_def
  personal_opts_def work_opts_def sample_display_def home_args_def s_home_def s_shutdown_def work_args_def inst_work_def

lemma switch_personal:
  "switchWorkspace env_nodisplay (cfg_workspaces DEFAULT_CONFIG) ''personal'' init_state
     = (Inr inst_personal, s_personal)"
  by (simp add: eval_defs waitForCDP_def waitForCDP_loop.simps)

lemmas server_defs =
  post_pages_def getCurrentBrowser_def getCurrentWorkspace_def truthy_str_def do_connect_def
  mk_page_def do_newPage_def do_getTargetInfo_def do_setViewportSize_def page_response_def
  getCurrentInstance_def create_failed_def post_workspace_switch_def hasWorkspace_def
  post_workspace_stop_def stopPages_def stopPage_def start_page_close_def start_browser_close_def
  stopWorkspace_def delete_page_def do_page_close_def close_page_def
  cleanup_def destroySockets_def closeBrowsers_def do_browser_close_def stopAll_def
  killChrome_def do_kill_def socket_connected_def socket_closed_def

text \<open>
  The end-to-end scenario of the specification: with no workspace active, a request for
  the page \<open>home\<close> selects \<open>personal\<close>, launches it on port 9230 and answers with a
  page bound to \<open>personal\<close>; a second request answers with the same target identifier and
  changes nothing.
\<close>

lemma first_request_home:
  "post_pages env_ok DEFAULT_CONFIG (Some ''home'') None init_state
     = (Response 200 (PageBody ''ws://127.0.0.1:9230/devtools/browser'' ''home'' ''T5''), s_home)"
  by (simp add: eval_defs server_defs waitForCDP_def waitForCDP_loop.simps)

lemma second_request_home:
  "post_pages env_ok DEFAULT_CONFIG (Some ''home'') None s_home
     = (Response 200 (PageBody ''ws://127.0.0.1:9230/devtools/browser'' ''home'' ''T5''), s_home)"
  by (simp add: eval_defs server_defs)

lemma launch_nodisplay:
  "launchChrome env_nodisplay personal_opts init_state
     = (Inr inst_personal, s_personal\<lparr>workspaces := [], currentWorkspace := None\<rparr>)"
  by (simp add: eval_defs waitForCDP_def waitForCDP_loop.simps)

lemma launch_ok:
  "spawnargs (last (procs (snd (launchChrome env_ok personal_opts init_state))))
     = [''--user-data-dir=/Users/dev/.dev-browser/workspaces/personal'',
        ''--remote-debugging-port=9230'', ''--window-size=1920,1080'',
        ''--no-first-run'', ''--no-default-browser-check'',
        ''--disable-background-timer-throttling'',
        ''--disable-backgrounding-occluded-windows'',
        ''--disable-renderer-backgrounding'', ''--window-position=1512,0'',
        ''about:blank'']"
  "cachedVirtualDisplay (snd (launchChrome env_ok personal_opts init_state))
     = Some (Some sample_display)"
  "length (procs (snd (launchChrome env_ok personal_opts init_state))) = 1"
  by (simp_all add: eval_defs waitForCDP_def waitForCDP_loop.simps)

lemma launchAll_nodisplay:
  "map spawnargs (procs (launchAll env_nodisplay [personal_opts, work_opts] init_state))
     = [personal_args,
        [''--user-data-dir=/Users/dev/.dev-browser/workspaces/work'',
         ''--remote-debugging-port=9231'', ''--window-size=1920,1080'',
         ''--no-first-run'', ''--no-default-browser-check'',
         ''--disable-background-timer-throttling'',
         ''--disable-backgrounding-occluded-windows'',
         ''--disable-renderer-backgrounding'', ''--headless=new'',
         ''about:blank'']]"
  by (simp add: eval_defs waitForCDP_def waitForCDP_loop.simps)

lemma launchAll_ok:
  "execs (launchAll env_ok [personal_opts, work_opts] init_state) = [Exec DISPLAYPLACER_LIST]"
  "cachedVirtualDisplay (launchAll env_ok [personal_opts, work_opts] init_state)
     = Some (Some sample_display)"
  "length (procs (launchAll env_ok [personal_opts, work_opts] init_state)) = 2"
  by (simp_all add: eval_defs waitForCDP_def waitForCDP_loop.simps execs_def is_Exec_def)

lemma s_two_reached:
  "post_workspace_switch env_ok DEFAULT_CONFIG (Some ''work'') s_home
     = (Response 200 (SwitchBody ''work'' (Some ''ws://127.0.0.1:9231/devtools/browser'')),
        snd (post_workspace_switch env_ok DEFAULT_CONFIG (Some ''work'') s_home))"
  "post_pages env_ok DEFAULT_CONFIG (Some ''docs'') None
       (snd (post_workspace_switch env_ok DEFAULT_CONFIG (Some ''work'') s_home))
     = (Response 200 (PageBody ''ws://127.0.0.1:9231/devtools/browser'' ''docs'' ''T11''), s_two)"
  by (simp_all add: s_two_def eval_defs server_defs waitForCDP_def waitForCDP_loop.simps)

lemma s_two_eval:
  "pageRegistry s_two
     = [(''home'', \<lparr>entry_page = 1, entry_targetId = ''T5'', entry_workspace = Some ''personal''\<rparr>),
        (''docs'', \<lparr>entry_page = 3, entry_targetId = ''T11'', entry_workspace = Some ''work''\<rparr>)]"
  "workspaces s_two = [(''personal'', inst_personal), (''work'', inst_work)]"
  "browserConnections s_two = [(''personal'', 0), (''work'', 1)]"
  "currentWorkspace s_two = Some ''work''"
  "length (procs s_two) = 2"
  by (simp_all add: s_two_def s_home_def init_state_def)

lemma s_anon_eval:
  "post_pages env_ok EMPTY_NAME_CONFIG (Some ''home'') None init_state
     = (Response 200 (PageBody [] ''home'' ''T5''), s_anon)"
  "pageRegistry s_anon
     = [(''home'', \<lparr>entry_page = 1, entry_targetId = ''T5'', entry_workspace = Some []\<rparr>)]"
  "workspaces s_anon = [([], inst_personal)]"
  "currentWorkspace s_anon = Some []"
  by (simp_all add: s_anon_def EMPTY_NAME_CONFIG_def eval_defs server_defs waitForCDP_def
      waitForCDP_loop.simps)


section \<open>Runs of the client and of the switch request\<close>

lemma cenv_fields [simp]:
  "chromiumConnect cenv_ok = (\<lambda>ws. Inr [[Some ''home'']])"
  "evaluateFails cenv_ok = (\<lambda>k. False)"
  "newContextFails cenv_ok = (\<lambda>k. None)"
  "addInitScriptFails cenv_ok = (\<lambda>k. None)"
  "contextNewPageFails cenv_ok = (\<lambda>k. None)"
  "contextCloseFails cenv_ok = (\<lambda>k. None)"
  "chromiumConnect cenv_busy = (\<lambda>ws. Inr [[Some ''home'']])"
  "evaluateFails cenv_busy = (\<lambda>k. k = 0)"
  "newContextFails cenv_busy = (\<lambda>k. None)"
  "addInitScriptFails cenv_busy = (\<lambda>k. None)"
  "contextNewPageFails cenv_busy = (\<lambda>k. None)"
  "contextCloseFails cenv_busy = (\<lambda>k. None)"
  by (simp_all add: cenv_ok_def cenv_busy_def)




lemma switched_reached:
  "post_workspace_switch env_ok DEFAULT_CONFIG (Some ''personal'') init_state
     = (Response 200 (SwitchBody ''personal'' (Some ''ws://127.0.0.1:9230/devtools/browser'')),
        s_switched)"
  by (simp add: s_switched_def eval_defs server_defs waitForCDP_def waitForCDP_loop.simps)



section \<open>Shutdown\<close>



lemma hd_blocks:
  "(\<And>x. x \<in> set (a @ r) \<Longrightarrow> \<not> P x) \<Longrightarrow> (a @ r = [] \<or> \<not> P (hd (a @ r)))"
  by (cases "a @ r") auto



lemma close_page_frame [simp]:
  "trace (close_page h s) = trace s" "tick (close_page h s) = tick s"
  "cleaningUp (close_page h s) = cleaningUp s"
  "connections (close_page h s) = connections s"
  "browserConnections (close_page h s) = browserConnections s"
  "workspaces (close_page h s) = workspaces s" "procs (close_page h s) = procs s"
  "timers (close_page h s) = timers s" "listening (close_page h s) = listening s"
  "currentWorkspace (close_page h s) = currentWorkspace s"
  "browsers (close_page h s) = browsers s" "closing (close_page h s) = closing s"
  "cachedVirtualDisplay (close_page h s) = cachedVirtualDisplay s"
  by (simp_all add: close_page_def)

lemma do_page_close_frame [simp]:
  "trace (snd (do_page_close e h s)) = trace s @ [PageClose h]"
  "cleaningUp (snd (do_page_close e h s)) = cleaningUp s"
  "connections (snd (do_page_close e h s)) = connections s"
  "browserConnections (snd (do_page_close e h s)) = browserConnections s"
  "workspaces (snd (do_page_close e h s)) = workspaces s"
  "procs (snd (do_page_close e h s)) = procs s"
  "timers (snd (do_page_close e h s)) = timers s"
  "listening (snd (do_page_close e h s)) = listening s"
  "currentWorkspace (snd (do_page_close e h s)) = currentWorkspace s"
  "browsers (snd (do_page_close e h s)) = browsers s"
  "closing (snd (do_page_close e h s)) = closing s"
  "cachedVirtualDisplay (snd (do_page_close e h s)) = cachedVirtualDisplay s"
  by (simp_all add: do_page_close_def Let_def split: option.splits)

lemma closePages_frame [simp]:
  "cleaningUp (closePages e r s) = cleaningUp s"
  "connections (closePages e r s) = connections s"
  "browserConnections (closePages e r s) = browserConnections s"
  "workspaces (closePages e r s) = workspaces s"
  "procs (closePages e r s) = procs s"
  "timers (closePages e r s) = timers s"
  "listening (closePages e r s) = listening s"
  "currentWorkspace (closePages e r s) = currentWorkspace s"
  "browsers (closePages e r s) = browsers s"
  "closing (closePages e r s) = closing s"
  "cachedVirtualDisplay (closePages e r s) = cachedVirtualDisplay s"
  by (induction e r s rule: closePages.induct; simp)+


lemma do_browser_close_frame [simp]:
  "trace (snd (do_browser_close e b s)) = trace s @ [BrowserClose b]"
  "cleaningUp (snd (do_browser_close e b s)) = cleaningUp s"
  "connections (snd (do_browser_close e b s)) = connections s"
  "browserConnections (snd (do_browser_close e b s)) = browserConnections s"
  "pageRegistry (snd (do_browser_close e b s)) = pageRegistry s"
  "workspaces (snd (do_browser_close e b s)) = workspaces s"
  "procs (snd (do_browser_close e b s)) = procs s"
  "timers (snd (do_browser_close e b s)) = timers s"
  "listening (snd (do_browser_close e b s)) = listening s"
  "currentWorkspace (snd (do_browser_close e b s)) = currentWorkspace s"
  "pages (snd (do_browser_close e b s)) = pages s"
  "ctxs (snd (do_browser_close e b s)) = ctxs s"
  "closing (snd (do_browser_close e b s)) = closing s"
  "cachedVirtualDisplay (snd (do_browser_close e b s)) = cachedVirtualDisplay s"
  by (simp_all add: do_browser_close_def Let_def split: option.splits)

lemma closeBrowsers_frame [simp]:
  "trace (closeBrowsers e bs s) = trace s @ map BrowserClose bs"
  "cleaningUp (closeBrowsers e bs s) = cleaningUp s"
  "connections (closeBrowsers e bs s) = connections s"
  "browserConnections (closeBrowsers e bs s) = browserConnections s"
  "pageRegistry (closeBrowsers e bs s) = pageRegistry s"
  "workspaces (closeBrowsers e bs s) = workspaces s"
  "procs (closeBrowsers e bs s) = procs s"
  "timers (closeBrowsers e bs s) = timers s"
  "listening (closeBrowsers e bs s) = listening s"
  "currentWorkspace (closeBrowsers e bs s) = currentWorkspace s"
  "pages (closeBrowsers e bs s) = pages s"
  "ctxs (closeBrowsers e bs s) = ctxs s"
  "closing (closeBrowsers e bs s) = closing s"
  "cachedVirtualDisplay (closeBrowsers e bs s) = cachedVirtualDisplay s"
  unfolding closeBrowsers_def by (induction bs arbitrary: s; simp)+

lemma do_kill_frame [simp]:
  "cleaningUp (do_kill h sig s) = cleaningUp s" "connections (do_kill h sig s) = connections s"
  "browserConnections (do_kill h sig s) = browserConnections s"
  "pageRegistry (do_kill h sig s) = pageRegistry s" "workspaces (do_kill h sig s) = workspaces s"
  "timers (do_kill h sig s) = timers s" "listening (do_kill h sig s) = listening s"
  "currentWorkspace (do_kill h sig s) = currentWorkspace s" "pages (do_kill h sig s) = pages s"
  "ctxs (do_kill h sig s) = ctxs s" "browsers (do_kill h sig s) = browsers s"
  "closing (do_kill h sig s) = closing s" "tick (do_kill h sig s) = tick s"
  "cachedVirtualDisplay (do_kill h sig s) = cachedVirtualDisplay s"
  "length (procs (do_kill h sig s)) = length (procs s)"
  by (simp_all add: do_kill_def Let_def)

lemma killChrome_frame [simp]:
  "cleaningUp (killChrome i s) = cleaningUp s" "connections (killChrome i s) = connections s"
  "browserConnections (killChrome i s) = browserConnections s"
  "pageRegistry (killChrome i s) = pageRegistry s" "workspaces (killChrome i s) = workspaces s"
  "listening (killChrome i s) = listening s"
  "currentWorkspace (killChrome i s) = currentWorkspace s" "pages (killChrome i s) = pages s"
  "ctxs (killChrome i s) = ctxs s" "browsers (killChrome i s) = browsers s"
  "closing (killChrome i s) = closing s" "tick (killChrome i s) = tick s"
  "cachedVirtualDisplay (killChrome i s) = cachedVirtualDisplay s"
  "length (procs (killChrome i s)) = length (procs s)"
  by (simp_all add: killChrome_def Let_def)


lemma killAll_frame [simp]:
  "cleaningUp (foldl (\<lambda>st ni. killChrome (snd ni) st) s xs) = cleaningUp s"
  "connections (foldl (\<lambda>st ni. killChrome (snd ni) st) s xs) = connections s"
  "browserConnections (foldl (\<lambda>st ni. killChrome (snd ni) st) s xs) = browserConnections s"
  "pageRegistry (foldl (\<lambda>st ni. killChrome (snd ni) st) s xs) = pageRegistry s"
  "listening (foldl (\<lambda>st ni. killChrome (snd ni) st) s xs) = listening s"
  by (induction xs arbitrary: s; simp)+


lemma stopAll_frame [simp]:
  "cleaningUp (stopAll s) = cleaningUp s" "connections (stopAll s) = connections s"
  "browserConnections (stopAll s) = browserConnections s"
  "pageRegistry (stopAll s) = pageRegistry s" "listening (stopAll s) = listening s"
  "workspaces (stopAll s) = []" "currentWorkspace (stopAll s) = None"
  by (simp_all add: stopAll_def Let_def)


section \<open>The page and workspace handlers\<close>

lemma post_pages_created:
  assumes "map_of (pageRegistry s) nm = None"
    and "post_pages e cfg (Some nm) vp s = (Response 200 body, s')"
  obtains s1 b c cs tid where
    "nm \<noteq> []"
    "getCurrentBrowser e cfg s = (Inr (Some b), s1)"
    "contexts (browsers s1 ! b) = c # cs"
    "newPage e (tick s1) = Inr tid"
    "pageRegistry s' = AList.update nm
        \<lparr>entry_page = length (pages s1), entry_targetId = tid,
         entry_workspace = currentWorkspace s1\<rparr> (pageRegistry s1)"
    "pages s' = pages s1 @ [\<lparr>targetId = tid, marker = None, closed = False, onClose = [nm]\<rparr>]"
    "ctxs s' = (ctxs s1)[c := (ctxs s1 ! c)\<lparr>ctx_pages := ctx_pages (ctxs s1 ! c) @ [length (pages s1)]\<rparr>]"
    "currentWorkspace s' = currentWorkspace s1" "workspaces s' = workspaces s1"
    "browsers s' = browsers s1" "browserConnections s' = browserConnections s1"
    "procs s' = procs s1"
    "\<exists>t. trace s' = trace s1 @ NewPage (length (pages s1)) # t"
  using assms
  unfolding post_pages_def
  by (auto simp: Let_def truthy_str_def create_failed_def page_response_def
      do_newPage_def do_setViewportSize_def do_getTargetInfo_def getCurrentWorkspace_def
      split: if_splits option.splits prod.splits sum.splits list.splits)

lemma switchWorkspace_ok:
  assumes "switchWorkspace e config n s = (Inr inst, s1)"
  shows "currentWorkspace s1 = Some n" "map_of (workspaces s1) n = Some inst"
    "m \<noteq> n \<Longrightarrow> map_of (workspaces s1) m = map_of (workspaces s) m"
    "pageRegistry s1 = pageRegistry s" "browserConnections s1 = browserConnections s"
    "pages s1 = pages s" "ctxs s1 = ctxs s" "browsers s1 = browsers s"
    "map_of config n \<noteq> None" "closing s1 = closing s" "connections s1 = connections s"
    "cleaningUp s1 = cleaningUp s" "listening s1 = listening s" "timers s1 = timers s"
proof -
  obtain c where c: "map_of config n = Some c"
    using assms by (auto simp: switchWorkspace_def split: option.splits)
  let ?o = "\<lparr>workspaceName = n, opt_profileDirectory = cfg_profileDirectory c,
              opt_port = cfg_port c, headless = Some False, windowSize = None\<rparr>"
  have "currentWorkspace s1 = Some n \<and> map_of (workspaces s1) n = Some inst
    \<and> (m \<noteq> n \<longrightarrow> map_of (workspaces s1) m = map_of (workspaces s) m)
    \<and> pageRegistry s1 = pageRegistry s \<and> browserConnections s1 = browserConnections s
    \<and> pages s1 = pages s \<and> ctxs s1 = ctxs s \<and> browsers s1 = browsers s
    \<and> closing s1 = closing s \<and> connections s1 = connections s
    \<and> cleaningUp s1 = cleaningUp s \<and> listening s1 = listening s \<and> timers s1 = timers s"
  proof (cases "map_of (workspaces s) n")
    case (Some i)
    with assms c show ?thesis by (auto simp: switchWorkspace_def)
  next
    case None
    obtain r s' where l: "launchChrome e ?o s = (r, s')" by (cases "launchChrome e ?o s")
    from assms None c l have r: "r = Inr inst"
      and s1: "s1 = s'\<lparr>workspaces := AList.update n inst (workspaces s'), currentWorkspace := Some n\<rparr>"
      by (auto simp: switchWorkspace_def split: sum.splits)
    show ?thesis using launchChrome_frame[OF l] by (simp add: s1 update_conv')
  qed
  then show "currentWorkspace s1 = Some n" "map_of (workspaces s1) n = Some inst"
    "m \<noteq> n \<Longrightarrow> map_of (workspaces s1) m = map_of (workspaces s) m"
    "pageRegistry s1 = pageRegistry s" "browserConnections s1 = browserConnections s"
    "pages s1 = pages s" "ctxs s1 = ctxs s" "browsers s1 = browsers s"
    "map_of config n \<noteq> None" "closing s1 = closing s" "connections s1 = connections s"
    "cleaningUp s1 = cleaningUp s" "listening s1 = listening s" "timers s1 = timers s"
    using c by simp_all
qed

lemma switchWorkspace_err:
  assumes "switchWorkspace e config n s = (Inl m, s1)"
  shows "currentWorkspace s1 = currentWorkspace s" "workspaces s1 = workspaces s"
    "pageRegistry s1 = pageRegistry s" "browserConnections s1 = browserConnections s"
    "pages s1 = pages s" "ctxs s1 = ctxs s" "browsers s1 = browsers s"
    "closing s1 = closing s" "connections s1 = connections s"
    "cleaningUp s1 = cleaningUp s" "listening s1 = listening s" "timers s1 = timers s"
proof -
  have "currentWorkspace s1 = currentWorkspace s \<and> workspaces s1 = workspaces s
    \<and> pageRegistry s1 = pageRegistry s \<and> browserConnections s1 = browserConnections s
    \<and> pages s1 = pages s \<and> ctxs s1 = ctxs s \<and> browsers s1 = browsers s
    \<and> closing s1 = closing s \<and> connections s1 = connections s
    \<and> cleaningUp s1 = cleaningUp s \<and> listening s1 = listening s \<and> timers s1 = timers s"
  proof (cases "map_of config n")
    case None
    with assms show ?thesis by (simp add: switchWorkspace_def)
  next
    case (Some c)
    let ?o = "\<lparr>workspaceName = n, opt_profileDirectory = cfg_profileDirectory c,
              opt_port = cfg_port c, headless = Some False, windowSize = None\<rparr>"
    obtain r s' where l: "launchChrome e ?o s = (r, s')" by (cases "launchChrome e ?o s")
    from assms Some l have "s1 = s'"
      by (auto simp: switchWorkspace_def split: sum.splits option.splits)
    then show ?thesis using launchChrome_frame[OF l] by simp
  qed
  then show "currentWorkspace s1 = currentWorkspace s" "workspaces s1 = workspaces s"
    "pageRegistry s1 = pageRegistry s" "browserConnections s1 = browserConnections s"
    "pages s1 = pages s" "ctxs s1 = ctxs s" "browsers s1 = browsers s"
    "closing s1 = closing s" "connections s1 = connections s"
    "cleaningUp s1 = cleaningUp s" "listening s1 = listening s" "timers s1 = timers s"
    by simp_all
qed

lemma do_connect_frame:
  assumes "do_connect e ws s = (r, s1)"
  shows "currentWorkspace s1 = currentWorkspace s" "workspaces s1 = workspaces s"
    "pageRegistry s1 = pageRegistry s" "browserConnections s1 = browserConnections s"
    "procs s1 = procs s" "closing s1 = closing s" "connections s1 = connections s"
    "cleaningUp s1 = cleaningUp s" "listening s1 = listening s" "timers s1 = timers s"
    "cachedVirtualDisplay s1 = cachedVirtualDisplay s"
  using assms by (auto simp: do_connect_def Let_def split: sum.splits)

lemma getCurrentBrowser_ok:
  assumes "getCurrentBrowser e cfg s = (Inr (Some b), s1)"
  shows "\<exists>w. currentWorkspace s1 = Some w \<and> map_of (browserConnections s1) w = Some b
           \<and> (if truthy_str (currentWorkspace s) then currentWorkspace s = Some w \<and> s1 = s
               else w = defaultWorkspace cfg)"
    and "pageRegistry s1 = pageRegistry s"
    and "\<And>m. map_of (workspaces s) m \<noteq> None \<Longrightarrow> map_of (workspaces s1) m = map_of (workspaces s) m"
proof -
  have "(\<exists>w. currentWorkspace s1 = Some w \<and> map_of (browserConnections s1) w = Some b
           \<and> (if truthy_str (currentWorkspace s) then currentWorkspace s = Some w \<and> s1 = s
               else w = defaultWorkspace cfg))
        \<and> pageRegistry s1 = pageRegistry s
        \<and> (\<forall>m. map_of (workspaces s) m \<noteq> None \<longrightarrow> map_of (workspaces s1) m = map_of (workspaces s) m)"
  proof (cases "truthy_str (currentWorkspace s)")
    case True
    with assms show ?thesis
      by (auto simp: getCurrentBrowser_def getCurrentWorkspace_def truthy_str_def Let_def
          split: option.splits)
  next
    case False
    let ?d = "defaultWorkspace cfg"
    obtain r s2 where sw: "switchWorkspace e (cfg_workspaces cfg) ?d s = (r, s2)"
      by (cases "switchWorkspace e (cfg_workspaces cfg) ?d s")
    from assms False sw obtain inst where r: "r = Inr inst"
      by (cases r) (auto simp: getCurrentBrowser_def getCurrentWorkspace_def Let_def)
    note ok = switchWorkspace_ok[OF sw[unfolded r]]
    have ws: "\<forall>m. map_of (workspaces s) m \<noteq> None \<longrightarrow> map_of (workspaces s2) m = map_of (workspaces s) m"
    proof (intro allI impI)
      fix m assume t: "map_of (workspaces s) m \<noteq> None"
      show "map_of (workspaces s2) m = map_of (workspaces s) m"
      proof (cases "m = ?d")
        case True
        with t sw r show ?thesis
          by (auto simp: switchWorkspace_def split: option.splits)
      next
        case False
        then show ?thesis using ok(3) by simp
      qed
    qed
    show ?thesis
    proof (cases "truthy_str (wsEndpoint inst) \<and> map_of (browserConnections s2) ?d = None")
      case True
      obtain rc s3 where dc: "do_connect e (the (wsEndpoint inst)) s2 = (rc, s3)"
        by (cases "do_connect e (the (wsEndpoint inst)) s2")
      have gc: "getCurrentBrowser e cfg s =
          (case rc of
             Inl m \<Rightarrow> (Inl m, s3)
           | Inr bb \<Rightarrow>
               (Inr (map_of (AList.update ?d bb (browserConnections s3)) ?d),
                s3\<lparr>browserConnections := AList.update ?d bb (browserConnections s3)\<rparr>))"
        using False sw r True dc
        by (simp add: getCurrentBrowser_def getCurrentWorkspace_def Let_def split: sum.splits)
      from assms gc obtain bb where rc: "rc = Inr bb" by (cases rc) simp_all
      from assms gc rc
      have s1: "s1 = s3\<lparr>browserConnections := AList.update ?d bb (browserConnections s3)\<rparr>"
        and b: "b = bb"
        by (auto simp: update_conv')
      show ?thesis using do_connect_frame[OF dc] ok ws False
        by (simp add: s1 b update_conv')
    next
      case nc: False
      with assms False sw r have "s1 = s2" "map_of (browserConnections s2) ?d = Some b"
        by (auto simp: getCurrentBrowser_def getCurrentWorkspace_def Let_def split: if_splits)
      then show ?thesis using ok ws False by simp
    qed
  qed
  then show "\<exists>w. currentWorkspace s1 = Some w \<and> map_of (browserConnections s1) w = Some b
           \<and> (if truthy_str (currentWorkspace s) then currentWorkspace s = Some w \<and> s1 = s
               else w = defaultWorkspace cfg)"
    and "pageRegistry s1 = pageRegistry s"
    and "\<And>m. map_of (workspaces s) m \<noteq> None \<Longrightarrow> map_of (workspaces s1) m = map_of (workspaces s) m"
    by blast+
qed

lemma inv_switchWorkspace:
  assumes "empty_name_inv cfg s" and "switchWorkspace e (cfg_workspaces cfg) n s = (r, s1)"
    and "n \<noteq> [] \<or> n = defaultWorkspace cfg"
  shows "empty_name_inv cfg s1"
proof (cases r)
  case (Inl m)
  with assms(1,2) show ?thesis
    using switchWorkspace_err(1,2)[of e "cfg_workspaces cfg" n s m s1]
    by (simp add: empty_name_inv_def)
next
  case (Inr inst)
  note ok = switchWorkspace_ok[OF assms(2)[unfolded Inr]]
  show ?thesis
  proof (cases "n = []")
    case True
    with assms(3) show ?thesis by (simp add: empty_name_inv_def)
  next
    case False
    then have "map_of (workspaces s1) [] = map_of (workspaces s) []" using ok(3)[of "[]"] by simp
    with assms(1) ok(1) False show ?thesis by (auto simp: empty_name_inv_def)
  qed
qed

lemma inv_getCurrentBrowser:
  assumes "empty_name_inv cfg s" and "getCurrentBrowser e cfg s = (r, s1)"
  shows "empty_name_inv cfg s1"
proof (cases "truthy_str (currentWorkspace s)")
  case True
  with assms(2) have "s1 = s"
    by (auto simp: getCurrentBrowser_def getCurrentWorkspace_def Let_def split: option.splits)
  with assms(1) show ?thesis by simp
next
  case False
  let ?d = "defaultWorkspace cfg"
  obtain rr s2 where sw: "switchWorkspace e (cfg_workspaces cfg) ?d s = (rr, s2)"
    by (cases "switchWorkspace e (cfg_workspaces cfg) ?d s")
  have i2: "empty_name_inv cfg s2" by (rule inv_switchWorkspace[OF assms(1) sw]) simp
  have "workspaces s1 = workspaces s2 \<and> currentWorkspace s1 = currentWorkspace s2"
  proof (cases rr)
    case (Inl m)
    with assms(2) False sw show ?thesis
      by (simp add: getCurrentBrowser_def getCurrentWorkspace_def Let_def)
  next
    case (Inr inst)
    show ?thesis
    proof (cases "truthy_str (wsEndpoint inst) \<and> map_of (browserConnections s2) ?d = None")
      case True
      obtain rc s3 where dc: "do_connect e (the (wsEndpoint inst)) s2 = (rc, s3)"
        by (cases "do_connect e (the (wsEndpoint inst)) s2")
      have "workspaces s1 = workspaces s3 \<and> currentWorkspace s1 = currentWorkspace s3"
        using assms(2) False sw Inr True dc
        by (cases rc) (auto simp: getCurrentBrowser_def getCurrentWorkspace_def Let_def)
      then show ?thesis using do_connect_frame(1,2)[OF dc] by simp
    next
      case nc: False
      with assms(2) False sw Inr have "s1 = s2"
        by (auto simp: getCurrentBrowser_def getCurrentWorkspace_def Let_def split: if_splits)
      then show ?thesis by simp
    qed
  qed
  with i2 show ?thesis by (simp add: empty_name_inv_def)
qed

lemma post_pages_shape:
  assumes "post_pages e cfg nm vp s = (r, s')"
    and "s1 = (if truthy_str nm \<and> map_of (pageRegistry s) (the nm) = None
               then snd (getCurrentBrowser e cfg s) else s)"
  shows "workspaces s' = workspaces s1" "currentWorkspace s' = currentWorkspace s1"
    "pageRegistry s' = pageRegistry s1
       \<or> (\<exists>v. pageRegistry s' = AList.update (the nm) v (pageRegistry s1))"
  using assms unfolding post_pages_def
  by (auto simp: Let_def create_failed_def page_response_def
      do_newPage_def do_setViewportSize_def do_getTargetInfo_def getCurrentWorkspace_def
      split: if_splits option.splits prod.splits sum.splits list.splits)

lemma getCurrentBrowser_registry:
  assumes "getCurrentBrowser e cfg s = (r, s1)"
  shows "pageRegistry s1 = pageRegistry s"
proof (cases "truthy_str (currentWorkspace s)")
  case True
  with assms have "s1 = s"
    by (auto simp: getCurrentBrowser_def getCurrentWorkspace_def Let_def split: option.splits)
  then show ?thesis by simp
next
  case False
  let ?d = "defaultWorkspace cfg"
  obtain rr s2 where sw: "switchWorkspace e (cfg_workspaces cfg) ?d s = (rr, s2)"
    by (cases "switchWorkspace e (cfg_workspaces cfg) ?d s")
  have r2: "pageRegistry s2 = pageRegistry s"
    using sw switchWorkspace_ok(4) switchWorkspace_err(3) by (cases rr) blast+
  show ?thesis
  proof (cases rr)
    case (Inl m)
    with assms False sw r2 show ?thesis
      by (simp add: getCurrentBrowser_def getCurrentWorkspace_def Let_def)
  next
    case (Inr inst)
    show ?thesis
    proof (cases "truthy_str (wsEndpoint inst) \<and> map_of (browserConnections s2) ?d = None")
      case True
      obtain rc s3 where dc: "do_connect e (the (wsEndpoint inst)) s2 = (rc, s3)"
        by (cases "do_connect e (the (wsEndpoint inst)) s2")
      have "pageRegistry s1 = pageRegistry s3"
        using assms False sw Inr True dc
        by (cases rc) (auto simp: getCurrentBrowser_def getCurrentWorkspace_def Let_def)
      then show ?thesis using do_connect_frame(3)[OF dc] r2 by simp
    next
      case nc: False
      with assms False sw Inr have "s1 = s2"
        by (auto simp: getCurrentBrowser_def getCurrentWorkspace_def Let_def split: if_splits)
      then show ?thesis using r2 by simp
    qed
  qed
qed

lemma distinct_fold_delete:
  "distinct (map fst r) \<Longrightarrow> distinct (map fst (foldl (\<lambda>r n. AList.delete n r) r ns))"
  by (induction ns arbitrary: r) (simp_all add: distinct_delete)

lemma close_page_registry:
  "distinct (map fst (pageRegistry s)) \<Longrightarrow> distinct (map fst (pageRegistry (close_page h s)))"
  by (simp add: close_page_def distinct_fold_delete)

lemma inv_post_pages:
  assumes "server_inv cfg s" and "post_pages e cfg nm vp s = (r, s')"
  shows "server_inv cfg s'"
proof -
  define s1 where "s1 = (if truthy_str nm \<and> map_of (pageRegistry s) (the nm) = None
               then snd (getCurrentBrowser e cfg s) else s)"
  note sh = post_pages_shape[OF assms(2) s1_def]
  have i1: "empty_name_inv cfg s1" and d1: "distinct (map fst (pageRegistry s1))"
    using assms(1) inv_getCurrentBrowser[of cfg s e "fst (getCurrentBrowser e cfg s)" "snd (getCurrentBrowser e cfg s)"]
      getCurrentBrowser_registry[of e cfg s "fst (getCurrentBrowser e cfg s)" "snd (getCurrentBrowser e cfg s)"]
    by (auto simp: server_inv_def s1_def)
  have a: "empty_name_inv cfg s'" using i1 sh(1,2) by (simp add: empty_name_inv_def)
  have "distinct (map fst (pageRegistry s'))" using sh(3) d1 by (auto simp: distinct_update)
  with a show ?thesis by (simp add: server_inv_def)
qed

lemma stopPage_frame [simp]:
  "workspaces (stopPage w s ne) = workspaces s"
  "currentWorkspace (stopPage w s ne) = currentWorkspace s"
  "browserConnections (stopPage w s ne) = browserConnections s"
  "procs (stopPage w s ne) = procs s" "timers (stopPage w s ne) = timers s"
  "pages (stopPage w s ne) = pages s" "ctxs (stopPage w s ne) = ctxs s"
  "browsers (stopPage w s ne) = browsers s" "connections (stopPage w s ne) = connections s"
  "cleaningUp (stopPage w s ne) = cleaningUp s" "listening (stopPage w s ne) = listening s"
  "cachedVirtualDisplay (stopPage w s ne) = cachedVirtualDisplay s"
  "tick (stopPage w s ne) = tick s"
  "pageRegistry (stopPage w s ne)
     = (if entry_workspace (snd ne) = Some w then AList.delete (fst ne) (pageRegistry s)
        else pageRegistry s)"
  by (simp_all add: stopPage_def start_page_close_def)

lemma stopPages_fold_frame [simp]:
  "workspaces (foldl (stopPage w) s xs) = workspaces s"
  "currentWorkspace (foldl (stopPage w) s xs) = currentWorkspace s"
  "browserConnections (foldl (stopPage w) s xs) = browserConnections s"
  "procs (foldl (stopPage w) s xs) = procs s" "timers (foldl (stopPage w) s xs) = timers s"
  "pages (foldl (stopPage w) s xs) = pages s" "ctxs (foldl (stopPage w) s xs) = ctxs s"
  "browsers (foldl (stopPage w) s xs) = browsers s"
  "connections (foldl (stopPage w) s xs) = connections s"
  "cleaningUp (foldl (stopPage w) s xs) = cleaningUp s"
  "listening (foldl (stopPage w) s xs) = listening s"
  "cachedVirtualDisplay (foldl (stopPage w) s xs) = cachedVirtualDisplay s"
  "tick (foldl (stopPage w) s xs) = tick s"
  by (induction xs arbitrary: s; simp)+

lemma stopPages_fold:
  "pageRegistry (foldl (stopPage w) st xs)
   = foldl (\<lambda>r ne. if entry_workspace (snd ne) = Some w then AList.delete (fst ne) r else r)
       (pageRegistry st) xs"
  by (induction xs arbitrary: st) simp_all

lemma delete_is_remove:
  assumes "distinct (map fst R)" and "x \<in> set R"
  shows "AList.delete (fst x) R = filter (\<lambda>ne. ne \<noteq> x) R"
proof -
  have "\<And>ne. ne \<in> set R \<Longrightarrow> (fst x \<noteq> fst ne) = (ne \<noteq> x)"
    using assms by (metis eq_key_imp_eq_value prod.collapse)
  then show ?thesis
    unfolding AList.delete_eq by (intro filter_cong) (auto simp: case_prod_beta)
qed

lemma fold_delete_filter:
  assumes "distinct (map fst R)" and "distinct (map fst xs)" and "set xs \<subseteq> set R"
  shows "foldl (\<lambda>r ne. if entry_workspace (snd ne) = Some w then AList.delete (fst ne) r else r) R xs
         = filter (\<lambda>ne. \<not> (ne \<in> set xs \<and> entry_workspace (snd ne) = Some w)) R"
  using assms
proof (induction xs arbitrary: R)
  case Nil
  then show ?case by simp
next
  case (Cons x xs)
  let ?f = "\<lambda>r ne. if entry_workspace (snd ne) = Some w then AList.delete (fst ne) r else r"
  have dx: "distinct (map fst xs)" and xnot: "fst x \<notin> fst ` set xs" using Cons.prems(2) by simp_all
  have xR: "x \<in> set R" using Cons.prems(3) by simp
  show ?case
  proof (cases "entry_workspace (snd x) = Some w")
    case True
    let ?R' = "AList.delete (fst x) R"
    have R': "?R' = filter (\<lambda>ne. ne \<noteq> x) R" by (rule delete_is_remove[OF Cons.prems(1) xR])
    have d': "distinct (map fst ?R')" using Cons.prems(1) by (rule distinct_delete)
    have sub: "set xs \<subseteq> set ?R'"
    proof
      fix y assume y: "y \<in> set xs"
      then have "y \<noteq> x" using xnot by auto
      moreover have "y \<in> set R" using y Cons.prems(3) by auto
      ultimately show "y \<in> set ?R'" by (simp add: R')
    qed
    have "foldl ?f R (x # xs) = foldl ?f ?R' xs" using True by simp
    also have "\<dots> = filter (\<lambda>ne. \<not> (ne \<in> set xs \<and> entry_workspace (snd ne) = Some w)) ?R'"
      by (rule Cons.IH[OF d' dx sub])
    also have "\<dots> = filter (\<lambda>ne. \<not> (ne \<in> set (x # xs) \<and> entry_workspace (snd ne) = Some w)) R"
      unfolding R' filter_filter using True by (intro filter_cong) auto
    finally show ?thesis .
  next
    case False
    have sub: "set xs \<subseteq> set R" using Cons.prems(3) by simp
    have "foldl ?f R (x # xs) = foldl ?f R xs" using False by simp
    also have "\<dots> = filter (\<lambda>ne. \<not> (ne \<in> set xs \<and> entry_workspace (snd ne) = Some w)) R"
      by (rule Cons.IH[OF Cons.prems(1) dx sub])
    also have "\<dots> = filter (\<lambda>ne. \<not> (ne \<in> set (x # xs) \<and> entry_workspace (snd ne) = Some w)) R"
      using False by (intro filter_cong) auto
    finally show ?thesis .
  qed
qed

lemma stopPages_registry:
  assumes "distinct (map fst (pageRegistry s))"
  shows "pageRegistry (stopPages w s)
           = filter (\<lambda>ne. entry_workspace (snd ne) \<noteq> Some w) (pageRegistry s)"
proof -
  have "pageRegistry (stopPages w s)
          = filter (\<lambda>ne. \<not> (ne \<in> set (pageRegistry s) \<and> entry_workspace (snd ne) = Some w))
              (pageRegistry s)"
    unfolding stopPages_def stopPages_fold
    by (rule fold_delete_filter[OF assms assms]) simp
  also have "\<dots> = filter (\<lambda>ne. entry_workspace (snd ne) \<noteq> Some w) (pageRegistry s)"
    by (intro filter_cong) auto
  finally show ?thesis .
qed

lemma stopPages_frame [simp]:
  "workspaces (stopPages w s) = workspaces s"
  "currentWorkspace (stopPages w s) = currentWorkspace s"
  "browserConnections (stopPages w s) = browserConnections s"
  "procs (stopPages w s) = procs s" "timers (stopPages w s) = timers s"
  "pages (stopPages w s) = pages s" "ctxs (stopPages w s) = ctxs s"
  "browsers (stopPages w s) = browsers s" "connections (stopPages w s) = connections s"
  "cleaningUp (stopPages w s) = cleaningUp s" "listening (stopPages w s) = listening s"
  "cachedVirtualDisplay (stopPages w s) = cachedVirtualDisplay s" "tick (stopPages w s) = tick s"
  by (simp_all add: stopPages_def)

lemma killChrome_other:
  "h \<noteq> process i \<Longrightarrow> procs (killChrome i s) ! h = procs s ! h"
  by (simp add: killChrome_def do_kill_def Let_def)

lemma delete_absent: "map_of r k = None \<Longrightarrow> AList.delete k r = r"
  by (induction r) (auto split: if_splits)

lemma stopWorkspace_charact:
  "workspaces (stopWorkspace w s) = AList.delete w (workspaces s)"
  "pageRegistry (stopWorkspace w s) = pageRegistry s"
  "browserConnections (stopWorkspace w s) = browserConnections s"
  "currentWorkspace (stopWorkspace w s)
     = (if map_of (workspaces s) w \<noteq> None \<and> currentWorkspace s = Some w then None
        else currentWorkspace s)"
  "(\<And>i. map_of (workspaces s) w = Some i \<Longrightarrow> h \<noteq> process i)
     \<Longrightarrow> procs (stopWorkspace w s) ! h = procs s ! h"
  by (auto simp: stopWorkspace_def Let_def delete_absent killChrome_other split: option.splits)

lemma start_browser_close_frame [simp]:
  "workspaces (start_browser_close b s) = workspaces s"
  "currentWorkspace (start_browser_close b s) = currentWorkspace s"
  "browserConnections (start_browser_close b s) = browserConnections s"
  "pageRegistry (start_browser_close b s) = pageRegistry s"
  "procs (start_browser_close b s) = procs s"
  by (simp_all add: start_browser_close_def)

lemma post_workspace_stop_charact:
  assumes "n \<noteq> []" and "distinct (map fst (pageRegistry s))"
  shows "fst (post_workspace_stop (Some n) s) = Response 200 (StopBody n)"
    and "pageRegistry (snd (post_workspace_stop (Some n) s))
           = filter (\<lambda>ne. entry_workspace (snd ne) \<noteq> Some n) (pageRegistry s)"
    and "workspaces (snd (post_workspace_stop (Some n) s)) = AList.delete n (workspaces s)"
    and "browserConnections (snd (post_workspace_stop (Some n) s))
           = AList.delete n (browserConnections s)"
    and "currentWorkspace (snd (post_workspace_stop (Some n) s))
           = (if map_of (workspaces s) n \<noteq> None \<and> currentWorkspace s = Some n then None
              else currentWorkspace s)"
  using assms
  by (auto simp: post_workspace_stop_def truthy_str_def Let_def stopWorkspace_charact(1-4)
      stopPages_registry delete_absent split: option.splits)

lemma post_workspace_stop_procs:
  assumes "n \<noteq> []" and "\<And>i. map_of (workspaces s) n = Some i \<Longrightarrow> h \<noteq> process i"
  shows "procs (snd (post_workspace_stop (Some n) s)) ! h = procs s ! h"
proof -
  let ?s1 = "stopPages n s"
  let ?s2 = "(case map_of (browserConnections ?s1) n of
                       None \<Rightarrow> ?s1
                     | Some b \<Rightarrow> (start_browser_close b ?s1)
                                   \<lparr>browserConnections := AList.delete n (browserConnections ?s1)\<rparr>)"
  have w2: "workspaces ?s2 = workspaces s" and p2: "procs ?s2 = procs s"
    by (simp_all split: option.splits)
  have "procs (stopWorkspace n ?s2) ! h = procs ?s2 ! h"
    by (rule stopWorkspace_charact(5)) (use assms(2) w2 in simp)
  then show ?thesis
    using assms(1) p2 by (simp add: post_workspace_stop_def truthy_str_def Let_def)
qed


section \<open>Lemmas on page creation and on the client\<close>








lemma length_alloc_bcontexts [simp]: "length (alloc_bcontexts n live) = length live"
  by (induction live arbitrary: n) simp_all



lemma client_close_absent:
  "map_of (registry s) nm = None \<Longrightarrow> client_close e nm s = (None, s)"
  by (simp add: client_close_def)
section \<open>The invariant of the server\<close>

lemma server_inv_frame:
  assumes "server_inv cfg s" and "workspaces s' = workspaces s"
    and "currentWorkspace s' = currentWorkspace s" and "pageRegistry s' = pageRegistry s"
  shows "server_inv cfg s'"
  using assms by (simp add: server_inv_def empty_name_inv_def)

lemma inv_post_workspace_switch:
  assumes "server_inv cfg s"
  shows "server_inv cfg (snd (post_workspace_switch e cfg w s))"
proof (cases "truthy_str w \<and> hasWorkspace (cfg_workspaces cfg) (the w)")
  case False
  then show ?thesis using assms by (auto simp: post_workspace_switch_def Let_def)
next
  case True
  let ?w = "the w"
  have ne: "?w \<noteq> []" using True by (cases w) (auto simp: truthy_str_def)
  obtain r s1 where sw: "switchWorkspace e (cfg_workspaces cfg) ?w s = (r, s1)"
    by (cases "switchWorkspace e (cfg_workspaces cfg) ?w s")
  have "empty_name_inv cfg s1"
    by (rule inv_switchWorkspace[OF _ sw]) (use assms ne in \<open>auto simp: server_inv_def\<close>)
  moreover have "pageRegistry s1 = pageRegistry s"
    using sw switchWorkspace_ok(4) switchWorkspace_err(3) by (cases r) blast+
  ultimately have i1: "server_inv cfg s1" using assms by (simp add: server_inv_def)
  show ?thesis
  proof (cases r)
    case (Inl m)
    with True sw i1 show ?thesis by (simp add: post_workspace_switch_def Let_def)
  next
    case (Inr inst)
    show ?thesis
    proof (cases "map_of (browserConnections s1) ?w = None \<and> truthy_str (wsEndpoint inst)")
      case nc: False
      with True sw Inr i1 show ?thesis by (auto simp: post_workspace_switch_def Let_def)
    next
      case c: True
      obtain rc s2 where dc: "do_connect e (the (wsEndpoint inst)) s1 = (rc, s2)"
        by (cases "do_connect e (the (wsEndpoint inst)) s1")
      note f = do_connect_frame(1-3)[OF dc]
      have i2: "server_inv cfg s2" by (rule server_inv_frame[OF i1]) (simp_all add: f)
      show ?thesis
      proof (cases rc)
        case (Inl m)
        with True sw Inr c dc i2 show ?thesis by (simp add: post_workspace_switch_def Let_def)
      next
        case (Inr b)
        have "snd (post_workspace_switch e cfg w s)
                = s2\<lparr>browserConnections := AList.update ?w b (browserConnections s2)\<rparr>"
          using True sw \<open>r = Inr inst\<close> c dc Inr by (simp add: post_workspace_switch_def Let_def)
        then show ?thesis using server_inv_frame[OF i2] by simp
      qed
    qed
  qed
qed

lemma inv_post_workspace_stop:
  assumes "server_inv cfg s"
  shows "server_inv cfg (snd (post_workspace_stop w s))"
proof (cases "truthy_str w")
  case False
  then show ?thesis using assms by (simp add: post_workspace_stop_def)
next
  case True
  then obtain n where w: "w = Some n" and ne: "n \<noteq> []"
    by (cases w) (auto simp: truthy_str_def)
  have d: "distinct (map fst (pageRegistry s))" using assms by (simp add: server_inv_def)
  note c = post_workspace_stop_charact[OF ne d]
  have "map_of (AList.delete n (workspaces s)) [] = map_of (workspaces s) []"
    using ne by (simp add: delete_conv')
  then have "empty_name_inv cfg (snd (post_workspace_stop w s))"
    using assms unfolding w server_inv_def empty_name_inv_def c(3,5)
    by (auto split: if_splits)
  moreover have "distinct (map fst (pageRegistry (snd (post_workspace_stop w s))))"
    unfolding w c(2) using d by (simp add: distinct_map_filter)
  ultimately show ?thesis by (simp add: server_inv_def)
qed

lemma do_page_close_registry:
  "distinct (map fst (pageRegistry s))
   \<Longrightarrow> distinct (map fst (pageRegistry (snd (do_page_close e h s))))"
  by (simp add: do_page_close_def Let_def close_page_registry split: option.splits)

lemma inv_delete_page:
  assumes "server_inv cfg s"
  shows "server_inv cfg (snd (delete_page e nm s))"
proof (cases "map_of (pageRegistry s) nm")
  case None
  then show ?thesis using assms by (simp add: delete_page_def)
next
  case (Some en)
  let ?s1 = "snd (do_page_close e (entry_page en) s)"
  have d1: "distinct (map fst (pageRegistry ?s1))"
    using assms by (simp add: server_inv_def do_page_close_registry)
  have e1: "empty_name_inv cfg ?s1" using assms by (simp add: server_inv_def empty_name_inv_def)
  have i1: "server_inv cfg ?s1" using d1 e1 by (simp add: server_inv_def)
  have "snd (delete_page e nm s) = ?s1
        \<or> snd (delete_page e nm s) = ?s1\<lparr>pageRegistry := AList.delete nm (pageRegistry ?s1)\<rparr>"
    using Some by (auto simp: delete_page_def split: prod.splits option.splits)
  then show ?thesis
  proof
    assume "snd (delete_page e nm s) = ?s1"
    with i1 show ?thesis by simp
  next
    assume a: "snd (delete_page e nm s) = ?s1\<lparr>pageRegistry := AList.delete nm (pageRegistry ?s1)\<rparr>"
    show ?thesis unfolding a using d1 e1
      by (simp add: server_inv_def empty_name_inv_def distinct_delete)
  qed
qed

lemma inv_cleanup:
  assumes "server_inv cfg s"
  shows "server_inv cfg (cleanup e s)"
  using assms by (simp add: cleanup_def Let_def server_inv_def empty_name_inv_def)

lemma inv_complete_close:
  assumes "server_inv cfg s"
  shows "server_inv cfg (complete_close e s)"
  using assms
  by (auto simp: complete_close_def Let_def server_inv_def empty_name_inv_def close_page_registry
      split: list.splits option.splits)

lemma inv_fireTimer:
  assumes "server_inv cfg s"
  shows "server_inv cfg (fireTimer s)"
  using assms
  by (auto simp: fireTimer_def Let_def server_inv_def empty_name_inv_def split: list.splits)

lemma reachable_server_inv:
  "reachable e cfg s \<Longrightarrow> server_inv cfg s"
proof (induction rule: reachable.induct)
  case init
  show ?case by (simp add: server_inv_def empty_name_inv_def init_state_def)
next
  case (switch s w)
  then show ?case by (simp add: inv_post_workspace_switch)
next
  case (stop s w)
  then show ?case by (simp add: inv_post_workspace_stop)
next
  case (page s nm vp)
  then show ?case using inv_post_pages[of cfg s e nm vp] by (metis prod.collapse)
next
  case (delete s nm)
  then show ?case by (simp add: inv_delete_page)
next
  case (shutdown s)
  then show ?case by (simp add: inv_cleanup)
next
  case (closed s)
  then show ?case by (simp add: inv_complete_close)
next
  case (timer s)
  then show ?case by (simp add: inv_fireTimer)
next
  case (exits s h)
  then show ?case by (simp add: proc_exits_def server_inv_def empty_name_inv_def)
next
  case (socket_open s k)
  then show ?case by (simp add: socket_connected_def server_inv_def empty_name_inv_def)
next
  case (socket_close s k)
  then show ?case by (simp add: socket_closed_def server_inv_def empty_name_inv_def)
qed

section \<open>Switching to a workspace\<close>

text \<open>
  Claim C4. For a configured workspace name \<open>n\<close>: when an instance is tracked for \<open>n\<close>,
  \<open>switchWorkspace\<close> returns that instance and changes nothing but the current-workspace
  pointer, so no process is started. When a first call succeeds, a second call in
  sequence returns the same instance (hence the same endpoint) and leaves the state as
  it is, and the two calls together have started at most one process.
\<close>

theorem switchWorkspace_idempotent:
  assumes "map_of config n = Some c"
  shows "(\<forall>inst. map_of (workspaces s) n = Some inst \<longrightarrow>
            switchWorkspace e config n s = (Inr inst, s\<lparr>currentWorkspace := Some n\<rparr>))
       \<and> (\<forall>i1 s1. switchWorkspace e config n s = (Inr i1, s1) \<longrightarrow>
            switchWorkspace e config n s1 = (Inr i1, s1)
            \<and> length (procs s1) \<le> Suc (length (procs s)))"
proof (intro conjI allI impI)
  fix inst
  assume "map_of (workspaces s) n = Some inst"
  then show "switchWorkspace e config n s = (Inr inst, s\<lparr>currentWorkspace := Some n\<rparr>)"
    using assms by (simp add: switchWorkspace_def)
next
  fix i1 s1
  assume sw: "switchWorkspace e config n s = (Inr i1, s1)"
  have tracked: "map_of (workspaces s1) n = Some i1 \<and> currentWorkspace s1 = Some n
                 \<and> length (procs s1) \<le> Suc (length (procs s))"
  proof (cases "map_of (workspaces s) n")
    case (Some inst)
    with sw assms show ?thesis by (auto simp: switchWorkspace_def)
  next
    case None
    let ?o = "\<lparr>workspaceName = n, opt_profileDirectory = cfg_profileDirectory c,
                opt_port = cfg_port c, headless = Some False, windowSize = None\<rparr>"
    obtain r s' where l: "launchChrome e ?o s = (r, s')" by (cases "launchChrome e ?o s")
    from sw None assms l have r: "r = Inr i1"
      and s1: "s1 = s'\<lparr>workspaces := AList.update n i1 (workspaces s'), currentWorkspace := Some n\<rparr>"
      by (auto simp: switchWorkspace_def split: sum.splits)
    have "length (procs s') \<le> Suc (length (procs s))"
      using launchChrome_procs(1)[OF l] by auto
    then show ?thesis by (simp add: s1 update_conv')
  qed
  have again: "switchWorkspace e config n s1 = (Inr i1, s1\<lparr>currentWorkspace := Some n\<rparr>)"
    using tracked assms by (simp add: switchWorkspace_def)
  moreover have "s1\<lparr>currentWorkspace := Some n\<rparr> = s1" using tracked by simp
  ultimately show "switchWorkspace e config n s1 = (Inr i1, s1)" by simp
  show "length (procs s1) \<le> Suc (length (procs s))" using tracked by simp
qed


theorem switchWorkspace_idempotent_witness:
  "map_of (cfg_workspaces DEFAULT_CONFIG) ''personal''
     = Some \<lparr>cfg_profileDirectory = ''Default'', cfg_port = 9230\<rparr>
   \<and> switchWorkspace env_nodisplay (cfg_workspaces DEFAULT_CONFIG) ''personal'' init_state
       = (Inr inst_personal, s_personal)
   \<and> map_of (workspaces s_personal) ''personal'' = Some inst_personal
   \<and> switchWorkspace env_nodisplay (cfg_workspaces DEFAULT_CONFIG) ''personal'' s_personal
       = (Inr inst_personal, s_personal)
   \<and> length (procs s_personal) \<le> Suc (length (procs init_state))"
proof -
  have c: "map_of (cfg_workspaces DEFAULT_CONFIG) ''personal''
             = Some \<lparr>cfg_profileDirectory = ''Default'', cfg_port = 9230\<rparr>"
    by (simp add: DEFAULT_CONFIG_def)
  have tr: "map_of (workspaces s_personal) ''personal'' = Some inst_personal"
    by (simp add: s_personal_def)
  show ?thesis
    using switchWorkspace_idempotent[OF c, of init_state env_nodisplay] switch_personal c tr
    by simp
qed

section \<open>Headless mode and window position\<close>

text \<open>
  Claim C5. Every launch that starts a process passes \<^verbatim>\<open>--headless=new\<close> exactly when
  headless mode was requested or the resolved placement is null, and passes a
  \<^verbatim>\<open>--window-position\<close> argument exactly when a placement was resolved. Consequently,
  when every display query fails and no placement is cached, every process started by
  any later sequence of launches, for whatever workspaces, runs headless.
\<close>

theorem launch_headless_iff_no_placement:
  "(\<forall>r s'. launchChrome e options s = (r, s') \<and> procs s' \<noteq> procs s \<longrightarrow>
      (\<exists>p. procs s' = procs s @ [p] \<and> cachedVirtualDisplay s' \<noteq> None
         \<and> (''--headless=new'' \<in> set (spawnargs p))
             = (truthy_bool (headless options) \<or> cachedVirtualDisplay s' = Some None)
         \<and> (\<exists>a\<in>set (spawnargs p). startsWith a ''--window-position='')
             = (cachedVirtualDisplay s' \<noteq> Some None)))
   \<and> ((\<forall>k. isl (execAsync e DISPLAYPLACER_LIST k)) \<and> cachedVirtualDisplay s = None \<longrightarrow>
        (\<forall>p\<in>set (drop (length (procs s)) (procs (launchAll e optss s))).
            ''--headless=new'' \<in> set (spawnargs p)))"
proof (intro conjI allI impI)
  fix r s'
  assume "launchChrome e options s = (r, s') \<and> procs s' \<noteq> procs s"
  then show "\<exists>p. procs s' = procs s @ [p] \<and> cachedVirtualDisplay s' \<noteq> None
         \<and> (''--headless=new'' \<in> set (spawnargs p))
             = (truthy_bool (headless options) \<or> cachedVirtualDisplay s' = Some None)
         \<and> (\<exists>a\<in>set (spawnargs p). startsWith a ''--window-position='')
             = (cachedVirtualDisplay s' \<noteq> Some None)"
    using launchChrome_spawn_args by blast
next
  assume h: "(\<forall>k. isl (execAsync e DISPLAYPLACER_LIST k)) \<and> cachedVirtualDisplay s = None"
  then obtain ps where "procs (launchAll e optss s) = procs s @ ps"
    "\<forall>p\<in>set ps. ''--headless=new'' \<in> set (spawnargs p)
                \<and> \<not> (\<exists>a\<in>set (spawnargs p). startsWith a ''--window-position='')"
    using launchAll_headless[of e s optss] by blast
  then show "\<forall>p\<in>set (drop (length (procs s)) (procs (launchAll e optss s))).
            ''--headless=new'' \<in> set (spawnargs p)"
    by simp
qed

theorem launch_headless_iff_no_placement_witness:
  "procs (snd (launchChrome env_nodisplay personal_opts init_state)) \<noteq> procs init_state
   \<and> cachedVirtualDisplay (snd (launchChrome env_nodisplay personal_opts init_state)) = Some None
   \<and> ''--headless=new''
        \<in> set (spawnargs (last (procs (snd (launchChrome env_nodisplay personal_opts init_state)))))
   \<and> procs (snd (launchChrome env_ok personal_opts init_state)) \<noteq> procs init_state
   \<and> cachedVirtualDisplay (snd (launchChrome env_ok personal_opts init_state))
        = Some (Some sample_display)
   \<and> ''--headless=new''
        \<notin> set (spawnargs (last (procs (snd (launchChrome env_ok personal_opts init_state)))))
   \<and> (\<exists>a\<in>set (spawnargs (last (procs (snd (launchChrome env_ok personal_opts init_state))))).
         startsWith a ''--window-position='')
   \<and> (\<forall>k. isl (execAsync env_nodisplay DISPLAYPLACER_LIST k))
   \<and> cachedVirtualDisplay init_state = None
   \<and> length (procs (launchAll env_nodisplay [personal_opts, work_opts] init_state)) = 2
   \<and> list_all (\<lambda>p. ''--headless=new'' \<in> set (spawnargs p))
        (drop (length (procs init_state))
           (procs (launchAll env_nodisplay [personal_opts, work_opts] init_state)))"
proof -
  let ?n = "launchChrome env_nodisplay personal_opts init_state"
  let ?k = "launchChrome env_ok personal_opts init_state"
  have pn: "procs (snd ?n) \<noteq> procs init_state"
    unfolding launch_nodisplay by (simp add: s_personal_def init_state_def)
  have pk: "procs (snd ?k) \<noteq> procs init_state"
    using launch_ok(3) by (auto simp: init_state_def)
  have cn: "cachedVirtualDisplay (snd ?n) = Some None"
    unfolding launch_nodisplay by (simp add: s_personal_def)
  have f: "\<forall>k. isl (execAsync env_nodisplay DISPLAYPLACER_LIST k)" by simp
  have i: "cachedVirtualDisplay init_state = None" by (simp add: init_state_def)
  note n1 = launch_headless_iff_no_placement
      [of env_nodisplay personal_opts init_state "[personal_opts, work_opts]", THEN conjunct1,
       rule_format, of "fst ?n" "snd ?n"]
  note k1 = launch_headless_iff_no_placement
      [of env_ok personal_opts init_state "[]", THEN conjunct1, rule_format, of "fst ?k" "snd ?k"]
  note n2 = launch_headless_iff_no_placement
      [of env_nodisplay personal_opts init_state "[personal_opts, work_opts]", THEN conjunct2]
  from n1 pn cn have hn: "''--headless=new'' \<in> set (spawnargs (last (procs (snd ?n))))"
    by auto
  from k1 pk launch_ok(2)
  have hk: "''--headless=new'' \<notin> set (spawnargs (last (procs (snd ?k))))"
    and wk: "\<exists>a\<in>set (spawnargs (last (procs (snd ?k)))). startsWith a ''--window-position=''"
    by (auto simp: personal_opts_def truthy_bool_def)
  from n2 f i have "\<forall>p\<in>set (drop (length (procs init_state))
           (procs (launchAll env_nodisplay [personal_opts, work_opts] init_state))).
            ''--headless=new'' \<in> set (spawnargs p)" by blast
  then have la: "list_all (\<lambda>p. ''--headless=new'' \<in> set (spawnargs p))
        (drop (length (procs init_state))
           (procs (launchAll env_nodisplay [personal_opts, work_opts] init_state)))"
    by (simp add: list_all_iff)
  have len: "length (procs (launchAll env_nodisplay [personal_opts, work_opts] init_state)) = 2"
    using arg_cong[OF launchAll_nodisplay, of length] by simp
  show ?thesis using pn cn hn pk launch_ok(2) hk wk f i len la by blast
qed

section \<open>Polling the debugging port\<close>



section \<open>The cached placement\<close>

text \<open>
  Claim C8. Once a placement result is cached, a null result included, no later launch
  changes it or runs an operating-system command. The first launch that finds the
  browser caches what \<open>ensureVirtualDisplay\<close> returns. Over any sequence of launches the
  commands run are none, the query, the query and the creation, or the query, the
  creation and one retry of the query. \<open>ensureVirtualDisplay\<close> itself queries; when nothing
  is detected it tries the creation; when the creation fails it returns null; otherwise
  it waits 1000 ms and queries exactly once more. A failing query detects nothing; no
  failure is an error of \<open>ensureVirtualDisplay\<close>, whose result has no error case.
\<close>

theorem display_resolved_once:
  "(cachedVirtualDisplay s \<noteq> None \<longrightarrow>
      cachedVirtualDisplay (launchAll e optss s) = cachedVirtualDisplay s
      \<and> execs (launchAll e optss s) = execs s)
   \<and> (\<forall>r s'. launchChrome e options s = (r, s') \<and> cachedVirtualDisplay s = None
              \<and> findChromeExecutable e \<noteq> None \<longrightarrow>
        cachedVirtualDisplay s' = Some (fst (ensureVirtualDisplay e s))
        \<and> execs s' = execs (snd (ensureVirtualDisplay e s)))
   \<and> (\<exists>x\<in>set resolution_runs. execs (launchAll e optss s) = execs s @ x)
   \<and> ensureVirtualDisplay e s =
       (if platform e \<noteq> ''darwin'' then (None, s)
        else if detect e (tick s) \<noteq> None then
          (detect e (tick s), s\<lparr>tick := tick s + 1, trace := trace s @ [Exec DISPLAYPLACER_LIST]\<rparr>)
        else if isl (execAsync e BETTERDISPLAY_CREATE (tick s + 1)) then
          (None, s\<lparr>tick := tick s + 2,
                   trace := trace s @ [Exec DISPLAYPLACER_LIST, Exec BETTERDISPLAY_CREATE]\<rparr>)
        else
          (detect e (tick s + 2),
           s\<lparr>tick := tick s + 3,
             trace := trace s @ [Exec DISPLAYPLACER_LIST, Exec BETTERDISPLAY_CREATE, Sleep 1000,
                                 Exec DISPLAYPLACER_LIST]\<rparr>))
   \<and> (isl (execAsync e DISPLAYPLACER_LIST k) \<longrightarrow> detect e k = None)"
proof (intro conjI allI impI)
  assume "cachedVirtualDisplay s \<noteq> None"
  then show "cachedVirtualDisplay (launchAll e optss s) = cachedVirtualDisplay s"
    and "execs (launchAll e optss s) = execs s"
    using launchAll_cached by blast+
next
  fix r s'
  assume h: "launchChrome e options s = (r, s') \<and> cachedVirtualDisplay s = None
              \<and> findChromeExecutable e \<noteq> None"
  then show "cachedVirtualDisplay s' = Some (fst (ensureVirtualDisplay e s))"
    using launchChrome_cache[of e options s r s'] by (auto simp: resolveDisplay_first)
  from h show "execs s' = execs (snd (ensureVirtualDisplay e s))"
    using launchChrome_execs[of e options s r s'] by (auto simp: resolveDisplay_def Let_def)
next
  show "\<exists>x\<in>set resolution_runs. execs (launchAll e optss s) = execs s @ x"
    by (rule launchAll_execs)
next
  show "ensureVirtualDisplay e s =
       (if platform e \<noteq> ''darwin'' then (None, s)
        else if detect e (tick s) \<noteq> None then
          (detect e (tick s), s\<lparr>tick := tick s + 1, trace := trace s @ [Exec DISPLAYPLACER_LIST]\<rparr>)
        else if isl (execAsync e BETTERDISPLAY_CREATE (tick s + 1)) then
          (None, s\<lparr>tick := tick s + 2,
                   trace := trace s @ [Exec DISPLAYPLACER_LIST, Exec BETTERDISPLAY_CREATE]\<rparr>)
        else
          (detect e (tick s + 2),
           s\<lparr>tick := tick s + 3,
             trace := trace s @ [Exec DISPLAYPLACER_LIST, Exec BETTERDISPLAY_CREATE, Sleep 1000,
                                 Exec DISPLAYPLACER_LIST]\<rparr>))"
    by (rule ensure_charact)
next
  assume "isl (execAsync e DISPLAYPLACER_LIST k)"
  then show "detect e k = None" by (rule detect_fails)
qed

theorem display_resolved_once_witness:
  "cachedVirtualDisplay s_personal = Some None
   \<and> cachedVirtualDisplay (launchAll env_ok [work_opts] s_personal) = Some None
   \<and> execs (launchAll env_ok [work_opts] s_personal) = execs s_personal
   \<and> cachedVirtualDisplay init_state = None
   \<and> findChromeExecutable env_ok \<noteq> None
   \<and> cachedVirtualDisplay (snd (launchChrome env_ok personal_opts init_state))
        = Some (Some sample_display)
   \<and> execs (launchAll env_ok [personal_opts, work_opts] init_state) = [Exec DISPLAYPLACER_LIST]
   \<and> isl (execAsync env_nodisplay DISPLAYPLACER_LIST 0)
   \<and> detect env_nodisplay 0 = None
   \<and> ensureVirtualDisplay env_nodisplay init_state
        = (None, init_state\<lparr>tick := 2,
                   trace := [Exec DISPLAYPLACER_LIST, Exec BETTERDISPLAY_CREATE]\<rparr>)"
proof -
  let ?k = "launchChrome env_ok personal_opts init_state"
  note a = display_resolved_once[of s_personal env_ok "[work_opts]" work_opts 0]
  note b = display_resolved_once[of init_state env_ok "[personal_opts, work_opts]" personal_opts 0]
  note c = display_resolved_once[of init_state env_nodisplay "[]" personal_opts 0]
  have c1: "cachedVirtualDisplay s_personal = Some None" by (simp add: s_personal_def)
  from a c1 have a': "cachedVirtualDisplay (launchAll env_ok [work_opts] s_personal) = Some None"
    "execs (launchAll env_ok [work_opts] s_personal) = execs s_personal"
    by simp_all
  have i: "cachedVirtualDisplay init_state = None" by (simp add: init_state_def)
  have fc: "findChromeExecutable env_ok \<noteq> None"
    by (simp add: findChromeExecutable_def CHROME_PATHS_def)
  have en: "fst (ensureVirtualDisplay env_ok init_state) = Some sample_display"
    by (simp add: ensure_charact)
  from b[THEN conjunct2, THEN conjunct1, rule_format, of "fst ?k" "snd ?k"] i fc en
  have b': "cachedVirtualDisplay (snd ?k) = Some (Some sample_display)" by simp
  have f: "isl (execAsync env_nodisplay DISPLAYPLACER_LIST 0)" by simp
  from c f have d: "detect env_nodisplay 0 = None" by blast
  have e: "ensureVirtualDisplay env_nodisplay init_state
        = (None, init_state\<lparr>tick := 2,
                   trace := [Exec DISPLAYPLACER_LIST, Exec BETTERDISPLAY_CREATE]\<rparr>)"
    using c by (simp add: init_state_def)
  show ?thesis using c1 a' i fc b' launchAll_ok(1) f d e by blast
qed

section \<open>Terminating a process\<close>

text \<open>
  After \<open>killChrome\<close> on a running process the timer callback finds \<^verbatim>\<open>killed\<close> set, so
  the signals the process has received are those it had, and \<^verbatim>\<open>SIGTERM\<close>.
\<close>

lemma killChrome_then_timer:
  assumes "process inst < length (procs s)" and "\<not> killed (procs s ! process inst)"
    and "\<not> exited (procs s ! process inst)" and "timers s = []"
  shows "signals (procs (fireTimer (killChrome inst s)) ! process inst)
           = signals (procs s ! process inst) @ [''SIGTERM'']"
    and "\<not> exited (procs (fireTimer (killChrome inst s)) ! process inst)"
    and "timers (killChrome inst s) = [(3000, process inst)]"
  using assms by (simp_all add: killChrome_def fireTimer_def do_kill_def Let_def)

text \<open>
  Claim C2, at a failing input. The process of \<open>personal\<close> is running and does not exit
  on \<^verbatim>\<open>SIGTERM\<close>. \<open>killChrome\<close> sends \<^verbatim>\<open>SIGTERM\<close> and returns with the forced kill
  pending on a timer of 3000 ms; sending the signal set the process's \<^verbatim>\<open>killed\<close> flag.
  When the timer fires the process is still alive, yet the callback, which tests that
  flag, sends nothing: the process never receives \<^verbatim>\<open>SIGKILL\<close>.
\<close>

theorem killChrome_sends_no_SIGKILL:
  "\<not> exited (procs s_personal ! process inst_personal)
   \<and> \<not> killed (procs s_personal ! process inst_personal)
   \<and> timers (killChrome inst_personal s_personal) = [(3000, process inst_personal)]
   \<and> signals (procs (killChrome inst_personal s_personal) ! process inst_personal) = [''SIGTERM'']
   \<and> \<not> exited (procs (killChrome inst_personal s_personal) ! process inst_personal)
   \<and> signals (procs (fireTimer (killChrome inst_personal s_personal)) ! process inst_personal)
       = [''SIGTERM'']
   \<and> ''SIGKILL'' \<notin> set (signals (procs (fireTimer (killChrome inst_personal s_personal))
                                     ! process inst_personal))
   \<and> \<not> exited (procs (fireTimer (killChrome inst_personal s_personal)) ! process inst_personal)
   \<and> timers (fireTimer (killChrome inst_personal s_personal)) = []"
  by (simp add: killChrome_def fireTimer_def do_kill_def Let_def s_personal_def
      inst_personal_def init_state_def)







section \<open>Closing a page that is not registered\<close>



section \<open>The pointer and the owner of a new page\<close>

text \<open>
  Claim C10. For a configured workspace \<open>n\<close> with a tracked instance, \<open>switchWorkspace\<close>
  starts nothing and still sets the current-workspace pointer to \<open>n\<close>. From then on, in
  every state where the pointer is \<open>n\<close>, a request that creates a page records \<open>n\<close> as
  the owner of the page and leaves the pointer at \<open>n\<close>, so the same holds for the next
  request. The states are those that satisfy \<open>empty_name_inv\<close>, as every state the server
  reaches does.
\<close>

theorem switch_sets_pointer_and_owner:
  assumes "map_of (cfg_workspaces cfg) n = Some c" and "map_of (workspaces s) n = Some inst"
    and "empty_name_inv cfg s"
  shows "switchWorkspace e (cfg_workspaces cfg) n s = (Inr inst, s\<lparr>currentWorkspace := Some n\<rparr>)
       \<and> empty_name_inv cfg (s\<lparr>currentWorkspace := Some n\<rparr>)
       \<and> (\<forall>s0 pn vp b s'.
             currentWorkspace s0 = Some n \<and> map_of (workspaces s0) n \<noteq> None
             \<and> empty_name_inv cfg s0 \<and> map_of (pageRegistry s0) pn = None
             \<and> post_pages e cfg (Some pn) vp s0 = (Response 200 b, s')
             \<longrightarrow> (\<exists>en. map_of (pageRegistry s') pn = Some en \<and> entry_workspace en = Some n)
                 \<and> currentWorkspace s' = Some n \<and> map_of (workspaces s') n \<noteq> None
                 \<and> empty_name_inv cfg s')"
proof (intro conjI allI impI)
  show "switchWorkspace e (cfg_workspaces cfg) n s = (Inr inst, s\<lparr>currentWorkspace := Some n\<rparr>)"
    using assms(1,2) by (simp add: switchWorkspace_def)
  show "empty_name_inv cfg (s\<lparr>currentWorkspace := Some n\<rparr>)"
    using assms(2,3) by (auto simp: empty_name_inv_def)
next
  fix s0 pn vp b s'
  assume h: "currentWorkspace s0 = Some n \<and> map_of (workspaces s0) n \<noteq> None
             \<and> empty_name_inv cfg s0 \<and> map_of (pageRegistry s0) pn = None
             \<and> post_pages e cfg (Some pn) vp s0 = (Response 200 b, s')"
  then have reg: "map_of (pageRegistry s0) pn = None"
    and pp: "post_pages e cfg (Some pn) vp s0 = (Response 200 b, s')" by simp_all
  from post_pages_created[OF reg pp] obtain s1 bb tid where
    gb: "getCurrentBrowser e cfg s0 = (Inr (Some bb), s1)"
    and r': "pageRegistry s' = AList.update pn
        \<lparr>entry_page = length (pages s1), entry_targetId = tid,
         entry_workspace = currentWorkspace s1\<rparr> (pageRegistry s1)"
    and c': "currentWorkspace s' = currentWorkspace s1" and w': "workspaces s' = workspaces s1"
    by metis
  from getCurrentBrowser_ok(1)[OF gb] obtain w where
    w: "currentWorkspace s1 = Some w"
       "if truthy_str (currentWorkspace s0) then currentWorkspace s0 = Some w \<and> s1 = s0
        else w = defaultWorkspace cfg"
    by blast
  have wn: "w = n"
  proof (cases "n = []")
    case True
    with h have "defaultWorkspace cfg = []" by (auto simp: empty_name_inv_def)
    with w(2) h True show ?thesis by (simp add: truthy_str_def)
  next
    case False
    with w(2) h show ?thesis by (simp add: truthy_str_def)
  qed
  show "\<exists>en. map_of (pageRegistry s') pn = Some en \<and> entry_workspace en = Some n"
    using r' w(1) wn by (simp add: update_conv')
  show "currentWorkspace s' = Some n" using c' w(1) wn by simp
  show "map_of (workspaces s') n \<noteq> None"
    using getCurrentBrowser_ok(3)[OF gb, of n] h w' by simp
  have "empty_name_inv cfg s1" using inv_getCurrentBrowser[OF _ gb] h by simp
  then show "empty_name_inv cfg s'" using c' w' by (simp add: empty_name_inv_def)
qed


theorem switch_sets_pointer_and_owner_witness:
  "map_of (cfg_workspaces DEFAULT_CONFIG) ''personal''
     = Some \<lparr>cfg_profileDirectory = ''Default'', cfg_port = 9230\<rparr>
   \<and> map_of (workspaces s_two) ''personal'' = Some inst_personal
   \<and> empty_name_inv DEFAULT_CONFIG s_two
   \<and> currentWorkspace s_two = Some ''work''
   \<and> switchWorkspace env_ok (cfg_workspaces DEFAULT_CONFIG) ''personal'' s_two
       = (Inr inst_personal, s_two\<lparr>currentWorkspace := Some ''personal''\<rparr>)
   \<and> map_of (pageRegistry (s_two\<lparr>currentWorkspace := Some ''personal''\<rparr>)) ''mail'' = None
   \<and> fst (post_pages env_ok DEFAULT_CONFIG (Some ''mail'') None
            (s_two\<lparr>currentWorkspace := Some ''personal''\<rparr>))
       = Response 200 (PageBody ''ws://127.0.0.1:9230/devtools/browser'' ''mail'' ''T13'')
   \<and> map_of (pageRegistry (snd (post_pages env_ok DEFAULT_CONFIG (Some ''mail'') None
                                  (s_two\<lparr>currentWorkspace := Some ''personal''\<rparr>)))) ''mail''
       = Some \<lparr>entry_page = 4, entry_targetId = ''T13'', entry_workspace = Some ''personal''\<rparr>
   \<and> currentWorkspace (snd (post_pages env_ok DEFAULT_CONFIG (Some ''mail'') None
                                 (s_two\<lparr>currentWorkspace := Some ''personal''\<rparr>)))
       = Some ''personal''"
proof -
  let ?s0 = "s_two\<lparr>currentWorkspace := Some ''personal''\<rparr>"
  let ?pp = "post_pages env_ok DEFAULT_CONFIG (Some ''mail'') None ?s0"
  have c: "map_of (cfg_workspaces DEFAULT_CONFIG) ''personal''
     = Some \<lparr>cfg_profileDirectory = ''Default'', cfg_port = 9230\<rparr>"
    by (simp add: DEFAULT_CONFIG_def)
  have t: "map_of (workspaces s_two) ''personal'' = Some inst_personal" by (simp add: s_two_eval)
  have i: "empty_name_inv DEFAULT_CONFIG s_two" by (simp add: empty_name_inv_def s_two_eval)
  note th = switch_sets_pointer_and_owner[OF c t i, of env_ok]
  have r: "map_of (pageRegistry ?s0) ''mail'' = None" by (simp add: s_two_eval)
  have pp: "fst ?pp
       = Response 200 (PageBody ''ws://127.0.0.1:9230/devtools/browser'' ''mail'' ''T13'')"
    "map_of (pageRegistry (snd ?pp)) ''mail''
       = Some \<lparr>entry_page = 4, entry_targetId = ''T13'', entry_workspace = Some ''personal''\<rparr>"
    by (simp_all add: s_two_def eval_defs server_defs)
  have e: "?pp = (Response 200 (PageBody ''ws://127.0.0.1:9230/devtools/browser'' ''mail'' ''T13''),
                  snd ?pp)"
    using pp(1) by (metis prod.collapse)
  have i0: "empty_name_inv DEFAULT_CONFIG ?s0" by (simp add: empty_name_inv_def s_two_eval)
  have t0: "map_of (workspaces ?s0) ''personal'' \<noteq> None" using t by simp
  from th[THEN conjunct2, THEN conjunct2, rule_format, of ?s0 "''mail''" None _ "snd ?pp"]
    t0 r i0 e
  have cw: "currentWorkspace (snd ?pp) = Some ''personal''" by simp
  have sw: "switchWorkspace env_ok (cfg_workspaces DEFAULT_CONFIG) ''personal'' s_two
       = (Inr inst_personal, ?s0)" using th by blast
  have cur: "currentWorkspace s_two = Some ''work''" by (rule s_two_eval(4))
  show ?thesis using c t i cur sw r pp cw by blast
qed

section \<open>Stopping a workspace\<close>

text \<open>
  Claim C9, amended. For every workspace name \<open>n\<close> that is not empty,
  \<^verbatim>\<open>POST /workspace/stop\<close> answers 200 and leaves in the registry exactly the entries whose
  owner is not \<open>n\<close>, in their order; of the tracked instances and of the pooled
  connections it removes the one of \<open>n\<close> and leaves the others, and it leaves alone every
  process but the one of \<open>n\<close>. For the empty name, and for a request without a name, it
  answers 400 and changes nothing. The registry has one entry per name, as in every
  state the server reaches.
\<close>

theorem stop_purges_owned_entries:
  "(n \<noteq> [] \<and> distinct (map fst (pageRegistry s)) \<longrightarrow>
      fst (post_workspace_stop (Some n) s) = Response 200 (StopBody n)
      \<and> pageRegistry (snd (post_workspace_stop (Some n) s))
          = filter (\<lambda>ne. entry_workspace (snd ne) \<noteq> Some n) (pageRegistry s)
      \<and> workspaces (snd (post_workspace_stop (Some n) s)) = AList.delete n (workspaces s)
      \<and> browserConnections (snd (post_workspace_stop (Some n) s))
          = AList.delete n (browserConnections s)
      \<and> (\<forall>m. m \<noteq> n \<longrightarrow>
            map_of (workspaces (snd (post_workspace_stop (Some n) s))) m = map_of (workspaces s) m
            \<and> map_of (browserConnections (snd (post_workspace_stop (Some n) s))) m
                = map_of (browserConnections s) m)
      \<and> (\<forall>h. (\<forall>i. map_of (workspaces s) n = Some i \<longrightarrow> h \<noteq> process i) \<longrightarrow>
            procs (snd (post_workspace_stop (Some n) s)) ! h = procs s ! h))
   \<and> post_workspace_stop (Some []) s = (Response 400 (ErrorBody ''workspace is required''), s)
   \<and> post_workspace_stop None s = (Response 400 (ErrorBody ''workspace is required''), s)"
proof (intro conjI impI allI)
  assume h: "n \<noteq> [] \<and> distinct (map fst (pageRegistry s))"
  then have n: "n \<noteq> []" and d: "distinct (map fst (pageRegistry s))" by simp_all
  note ch = post_workspace_stop_charact[OF n d]
  show "fst (post_workspace_stop (Some n) s) = Response 200 (StopBody n)" by (rule ch(1))
  show "pageRegistry (snd (post_workspace_stop (Some n) s))
          = filter (\<lambda>ne. entry_workspace (snd ne) \<noteq> Some n) (pageRegistry s)" by (rule ch(2))
  show "workspaces (snd (post_workspace_stop (Some n) s)) = AList.delete n (workspaces s)"
    by (rule ch(3))
  show "browserConnections (snd (post_workspace_stop (Some n) s))
          = AList.delete n (browserConnections s)" by (rule ch(4))
  { fix m assume "m \<noteq> n"
    then show "map_of (workspaces (snd (post_workspace_stop (Some n) s))) m = map_of (workspaces s) m"
      and "map_of (browserConnections (snd (post_workspace_stop (Some n) s))) m
                = map_of (browserConnections s) m"
      by (simp_all add: ch(3,4) delete_conv') }
  { fix h assume "\<forall>i. map_of (workspaces s) n = Some i \<longrightarrow> h \<noteq> process i"
    then show "procs (snd (post_workspace_stop (Some n) s)) ! h = procs s ! h"
      using post_workspace_stop_procs[OF n, of s h] by blast }
next
  show "post_workspace_stop (Some []) s = (Response 400 (ErrorBody ''workspace is required''), s)"
    by (simp add: post_workspace_stop_def truthy_str_def)
  show "post_workspace_stop None s = (Response 400 (ErrorBody ''workspace is required''), s)"
    by (simp add: post_workspace_stop_def truthy_str_def)
qed

theorem stop_purges_owned_entries_witness:
  "''personal'' \<noteq> [] \<and> distinct (map fst (pageRegistry s_two))
   \<and> fst (post_workspace_stop (Some ''personal'') s_two) = Response 200 (StopBody ''personal'')
   \<and> pageRegistry (snd (post_workspace_stop (Some ''personal'') s_two))
       = [(''docs'', \<lparr>entry_page = 3, entry_targetId = ''T11'', entry_workspace = Some ''work''\<rparr>)]
   \<and> map_of (workspaces (snd (post_workspace_stop (Some ''personal'') s_two))) ''personal'' = None
   \<and> map_of (workspaces (snd (post_workspace_stop (Some ''personal'') s_two))) ''work''
       = map_of (workspaces s_two) ''work''
   \<and> map_of (browserConnections (snd (post_workspace_stop (Some ''personal'') s_two))) ''work''
       = Some 1
   \<and> procs (snd (post_workspace_stop (Some ''personal'') s_two)) ! 1 = procs s_two ! 1"
proof -
  have d: "''personal'' \<noteq> [] \<and> distinct (map fst (pageRegistry s_two))"
    by (simp add: s_two_eval)
  note th = stop_purges_owned_entries[of "''personal''" s_two, THEN conjunct1, rule_format, OF d]
  have p: "\<forall>i. map_of (workspaces s_two) ''personal'' = Some i \<longrightarrow> 1 \<noteq> process i"
    by (simp add: s_two_eval inst_personal_def)
  from th have "procs (snd (post_workspace_stop (Some ''personal'') s_two)) ! 1 = procs s_two ! 1"
    using p by blast
  moreover from th have "map_of (workspaces (snd (post_workspace_stop (Some ''personal'') s_two))) ''work''
       = map_of (workspaces s_two) ''work''"
    and "map_of (browserConnections (snd (post_workspace_stop (Some ''personal'') s_two))) ''work''
       = Some 1"
    by (simp_all add: s_two_eval)
  moreover from th have "pageRegistry (snd (post_workspace_stop (Some ''personal'') s_two))
       = [(''docs'', \<lparr>entry_page = 3, entry_targetId = ''T11'', entry_workspace = Some ''work''\<rparr>)]"
    and "map_of (workspaces (snd (post_workspace_stop (Some ''personal'') s_two))) ''personal'' = None"
    and "fst (post_workspace_stop (Some ''personal'') s_two) = Response 200 (StopBody ''personal'')"
    by (simp_all add: s_two_eval)
  ultimately show ?thesis using d by blast
qed

text \<open>
  The claim as stated fails for the empty name. Under a configuration whose default
  workspace has the empty name, the first page request records a page owned by that
  workspace; stopping the workspace is answered 400, and the entry stays.
\<close>

theorem stop_empty_name_keeps_entries:
  "post_pages env_ok EMPTY_NAME_CONFIG (Some ''home'') None init_state
     = (Response 200 (PageBody [] ''home'' ''T5''), s_anon)
   \<and> map_of (pageRegistry s_anon) ''home''
       = Some \<lparr>entry_page = 1, entry_targetId = ''T5'', entry_workspace = Some []\<rparr>
   \<and> post_workspace_stop (Some []) s_anon
       = (Response 400 (ErrorBody ''workspace is required''), s_anon)
   \<and> map_of (pageRegistry (snd (post_workspace_stop (Some []) s_anon))) ''home''
       = Some \<lparr>entry_page = 1, entry_targetId = ''T5'', entry_workspace = Some []\<rparr>
   \<and> pageRegistry (snd (post_workspace_stop (Some []) s_anon))
       \<noteq> filter (\<lambda>ne. entry_workspace (snd ne) \<noteq> Some []) (pageRegistry s_anon)"
proof -
  have st: "post_workspace_stop (Some []) s_anon
       = (Response 400 (ErrorBody ''workspace is required''), s_anon)"
    by (simp add: post_workspace_stop_def truthy_str_def)
  show ?thesis unfolding st by (simp add: s_anon_eval)
qed


section \<open>Creating a page under a name that is not registered\<close>



end
